theory Spec2Isabelle
  imports Main "HOL-Library.Multiset"
begin

section \<open>Python values and the built-ins the code relies on\<close>

text \<open>
  The two modules \<^verbatim>\<open>seller.py\<close> (Ozon) and \<^verbatim>\<open>market.py\<close> (Yandex Market) are embedded
  function by function. A Python \<^verbatim>\<open>str\<close> is modelled by its UTF-8 encoding, a \<open>string\<close> of
  bytes: apart from the built-in \<^verbatim>\<open>int\<close>, which is treated below, the only string operations
  of the code are equality, splitting at the ASCII
  character \<^verbatim>\<open>.\<close> and deleting every character outside \<^verbatim>\<open>0-9\<close>, and on UTF-8 each of them
  gives the encoding of what Python computes on code points, since every byte of a
  multi-byte sequence is above \<^verbatim>\<open>0x7F\<close>.

  Exceptions are values of type \<open>error\<close>; a function that can raise returns \<open>error + 'a\<close>.
\<close>

datatype error =
    ValueError
  | TypeError
  | AttributeError
  | IndexError
  | HTTPError nat
  | ReadTimeout
  | ConnectionError

text \<open>
  A cell of a feed row, as \<^verbatim>\<open>watch.get(key)\<close> returns it: \<open>VNone\<close> for a missing key, an
  integer or a string (pandas yields both for a mixed spreadsheet column). Floating-point
  cells are outside the model.
\<close>

datatype pyval = VNone | VInt int | VStr string

definition is_digit :: "char \<Rightarrow> bool" where
  "is_digit c = (c \<in> set ''0123456789'')"

definition digit_char :: "nat \<Rightarrow> char" where
  "digit_char d = ''0123456789'' ! d"

fun str_nat :: "nat \<Rightarrow> string" where
  "str_nat n = (if n < 10 then [digit_char n] else str_nat (n div 10) @ [digit_char (n mod 10)])"

declare str_nat.simps [simp del]

definition str_int :: "int \<Rightarrow> string" where
  "str_int i = (if i < 0 then CHR ''-'' # str_nat (nat (- i)) else str_nat (nat i))"

text \<open>Python's \<^verbatim>\<open>str(x)\<close>.\<close>

fun py_str :: "pyval \<Rightarrow> string" where
  "py_str VNone = ''None''"
| "py_str (VInt i) = str_int i"
| "py_str (VStr s) = s"

text \<open>
  Python's \<^verbatim>\<open>int(x)\<close>: an integer is returned as it is and \<^verbatim>\<open>None\<close> raises TypeError. What
  the built-in returns for a string rests on tables of the interpreter, the decimal digits
  and the blanks of every script and a bound on the number of digits, which are no part of
  the repository. Its action on strings is therefore a parameter \<open>int_str\<close> of every
  function that calls it: the integer returned, or \<open>None\<close> when the built-in raises
  ValueError.
\<close>

fun py_int :: "(string \<Rightarrow> int option) \<Rightarrow> pyval \<Rightarrow> error + int" where
  "py_int int_str VNone = Inl TypeError"
| "py_int int_str (VInt i) = Inr i"
| "py_int int_str (VStr s) = (case int_str s of None \<Rightarrow> Inl ValueError | Some n \<Rightarrow> Inr n)"

text \<open>Python's \<^verbatim>\<open>s.split(sep)\<close> for a one-character separator: never an empty list.\<close>

fun py_split :: "char \<Rightarrow> string \<Rightarrow> string list" where
  "py_split sep [] = [[]]"
| "py_split sep (c # cs) =
     (if c = sep then [] # py_split sep cs
      else (case py_split sep cs of [] \<Rightarrow> [[c]] | p # ps \<Rightarrow> (c # p) # ps))"

text \<open>
  Python's \<^verbatim>\<open>range(start, stop, step)\<close> as the list of its elements: a zero step raises
  ValueError, and the number of elements is computed as CPython does.
\<close>

definition range_len :: "int \<Rightarrow> int \<Rightarrow> int \<Rightarrow> nat" where
  "range_len start stop step =
     (if 0 < step then (if start < stop then nat ((stop - start - 1) div step + 1) else 0)
      else (if stop < start then nat ((start - stop - 1) div (- step) + 1) else 0))"

definition py_range :: "int \<Rightarrow> int \<Rightarrow> int \<Rightarrow> error + int list" where
  "py_range start stop step =
     (if step = 0 then Inl ValueError
      else Inr (map (\<lambda>k. start + int k * step) [0..<range_len start stop step]))"

text \<open>Python's slice \<^verbatim>\<open>lst[lo:hi]\<close>: negative bounds count from the end, all bounds are clamped.\<close>

definition py_slice :: "'a list \<Rightarrow> int \<Rightarrow> int \<Rightarrow> 'a list" where
  "py_slice lst lo hi =
     (let n = int (length lst);
          l = (if lo < 0 then max 0 (lo + n) else min lo n);
          h = (if hi < 0 then max 0 (hi + n) else min hi n)
      in take (nat (h - l)) (drop (nat l) lst))"

section \<open>Data\<close>

text \<open>
  A feed row (\<^verbatim>\<open>watch\<close>), a dictionary read with \<^verbatim>\<open>.get\<close>: the cells under the keys
  of the product code, the quantity and the price.
\<close>

record feed_row =
  row_code :: pyval
  row_count :: pyval
  row_price :: pyval

text \<open>
  The payload dictionaries of \<^verbatim>\<open>seller.py\<close>: a stock entry has the keys \<^verbatim>\<open>offer_id\<close> and
  \<^verbatim>\<open>stock\<close>, a price entry the keys below with \<^verbatim>\<open>offer_id\<close> and \<^verbatim>\<open>price\<close>.
\<close>

record ozon_stock =
  stock_offer_id :: string
  stock_count :: int

record ozon_price =
  auto_action_enabled :: string
  currency_code :: string
  price_offer_id :: string
  old_price :: string
  price_text :: string

text \<open>The payload dictionaries of \<^verbatim>\<open>market.py\<close>.\<close>

record market_item =
  item_count :: int
  item_type :: string
  updatedAt :: string

record market_stock =
  sku :: string
  warehouseId :: string
  stock_items :: "market_item list"

record market_price_value =
  price_value :: int
  currencyId :: string

record market_price =
  price_id :: string
  price_body :: market_price_value

text \<open>One page of the product listing, as \<^verbatim>\<open>get_product_list\<close> returns it.\<close>

record ozon_product =
  product_offer_id :: string

record ozon_page =
  page_items :: "ozon_product list"
  page_total :: int
  page_last_id :: string

record market_entry =
  shopSku :: string

record market_page =
  offerMappingEntries :: "market_entry list"
  nextPageToken :: "string option"

text \<open>
  The currency word of the feed's price cells, the three Cyrillic letters U+0440 U+0443
  U+0431 in UTF-8; the examples of the docstrings end in it.
\<close>

definition rub :: string where
  "rub = [CHR 0xD1, CHR 0x80, CHR 0xD1, CHR 0x83, CHR 0xD0, CHR 0xB1]"

section \<open>seller.py\<close>

subsection \<open>price_conversion and divide\<close>

text \<open>
  \<^verbatim>\<open>return re.sub("[^0-9]", "", price.split(".")[0])\<close>; a value that is not a string has no
  \<^verbatim>\<open>split\<close> and raises AttributeError.
\<close>

definition price_conversion :: "pyval \<Rightarrow> error + string" where
  "price_conversion price =
     (case price of
        VStr s \<Rightarrow>
          (case py_split (CHR ''.'') s of
             [] \<Rightarrow> Inl IndexError
           | p # _ \<Rightarrow> Inr (filter is_digit p))
      | _ \<Rightarrow> Inl AttributeError)"

text \<open>
  \<^verbatim>\<open>for i in range(0, len(lst), n): yield lst[i : i + n]\<close>, as the list of chunks that
  \<^verbatim>\<open>list(divide(lst, n))\<close> collects.
\<close>

definition divide_list :: "'a list \<Rightarrow> int \<Rightarrow> error + 'a list list" where
  "divide_list lst n =
     (case py_range 0 (int (length lst)) n of
        Inl e \<Rightarrow> Inl e
      | Inr is \<Rightarrow> Inr (map (\<lambda>i. py_slice lst i (i + n)) is))"

subsection \<open>create_stocks and create_prices\<close>

text \<open>
  \<^verbatim>\<open>create_stocks\<close> mutates its argument \<^verbatim>\<open>offer_ids\<close> (\<^verbatim>\<open>offer_ids.remove\<close>), so the model
  returns the list as the call leaves it beside the result, also when the call raises.
  The first loop, with the accumulator \<^verbatim>\<open>stocks\<close>:
\<close>

fun seller_stocks_loop ::
  "(string \<Rightarrow> int option) \<Rightarrow> feed_row list \<Rightarrow> string list \<Rightarrow> ozon_stock list \<Rightarrow> (error + ozon_stock list) \<times> string list"
where
  "seller_stocks_loop int_str [] offer_ids stocks = (Inr stocks, offer_ids)"
| "seller_stocks_loop int_str (watch # rest) offer_ids stocks =
     (if py_str (row_code watch) \<in> set offer_ids then
        (let count = py_str (row_count watch) in
         case (if count = ''>10'' then Inr 100
               else if count = ''1'' then Inr 0
               else py_int int_str (row_count watch)) of
           Inl e \<Rightarrow> (Inl e, offer_ids)
         | Inr stock \<Rightarrow>
             seller_stocks_loop int_str rest (remove1 (py_str (row_code watch)) offer_ids)
               (stocks @ [\<lparr>stock_offer_id = py_str (row_code watch), stock_count = stock\<rparr>]))
      else seller_stocks_loop int_str rest offer_ids stocks)"

definition seller_create_stocks ::
  "(string \<Rightarrow> int option) \<Rightarrow> feed_row list \<Rightarrow> string list \<Rightarrow> (error + ozon_stock list) \<times> string list"
where
  "seller_create_stocks int_str watch_remnants offer_ids =
     (case seller_stocks_loop int_str watch_remnants offer_ids [] of
        (Inl e, offer_ids') \<Rightarrow> (Inl e, offer_ids')
      | (Inr stocks, offer_ids') \<Rightarrow>
          (Inr (stocks @ map (\<lambda>offer_id. \<lparr>stock_offer_id = offer_id, stock_count = 0\<rparr>) offer_ids'),
           offer_ids'))"

fun seller_prices_loop ::
  "feed_row list \<Rightarrow> string list \<Rightarrow> ozon_price list \<Rightarrow> (error + ozon_price list) \<times> string list"
where
  "seller_prices_loop [] offer_ids prices = (Inr prices, offer_ids)"
| "seller_prices_loop (watch # rest) offer_ids prices =
     (if py_str (row_code watch) \<in> set offer_ids then
        (case price_conversion (row_price watch) of
           Inl e \<Rightarrow> (Inl e, offer_ids)
         | Inr p \<Rightarrow>
             seller_prices_loop rest offer_ids
               (prices @ [\<lparr>auto_action_enabled = ''UNKNOWN'', currency_code = ''RUB'',
                            price_offer_id = py_str (row_code watch), old_price = ''0'',
                            price_text = p\<rparr>]))
      else seller_prices_loop rest offer_ids prices)"

definition seller_create_prices ::
  "feed_row list \<Rightarrow> string list \<Rightarrow> (error + ozon_price list) \<times> string list"
where
  "seller_create_prices watch_remnants offer_ids = seller_prices_loop watch_remnants offer_ids []"

subsection \<open>get_offer_ids\<close>

text \<open>
  The collaborator \<^verbatim>\<open>get_product_list\<close> is a parameter: the answer to the \<open>k\<close>-th request
  as a function of the \<^verbatim>\<open>last_id\<close> it carries, a page or the exception raised. The
  \<^verbatim>\<open>while True\<close> loop need not end, so the loop is a partial function: \<open>None\<close> when it
  runs forever.
\<close>

partial_function (option) seller_offers_loop ::
  "(nat \<Rightarrow> string \<Rightarrow> error + ozon_page) \<Rightarrow> nat \<Rightarrow> string \<Rightarrow> ozon_product list
     \<Rightarrow> (error + ozon_product list) option"
where
  "seller_offers_loop get_product_list k last_id product_list =
     (case get_product_list k last_id of
        Inl e \<Rightarrow> Some (Inl e)
      | Inr some_prod \<Rightarrow>
          (if page_total some_prod = int (length (product_list @ page_items some_prod))
           then Some (Inr (product_list @ page_items some_prod))
           else seller_offers_loop get_product_list (Suc k) (page_last_id some_prod)
                  (product_list @ page_items some_prod)))"

declare seller_offers_loop.simps [code]

definition seller_get_offer_ids ::
  "(nat \<Rightarrow> string \<Rightarrow> error + ozon_page) \<Rightarrow> (error + string list) option"
where
  "seller_get_offer_ids get_product_list =
     (case seller_offers_loop get_product_list 0 '''' [] of
        None \<Rightarrow> None
      | Some (Inl e) \<Rightarrow> Some (Inl e)
      | Some (Inr product_list) \<Rightarrow> Some (Inr (map product_offer_id product_list)))"

subsection \<open>upload_prices, upload_stocks and main\<close>

text \<open>
  The collaborators \<^verbatim>\<open>update_price\<close> and \<^verbatim>\<open>update_stocks\<close> are parameters: given the
  requests made so far and the batch sent now, the exception raised, if any. The loop
  \<^verbatim>\<open>for batch in list(divide(..)): update(batch, ..)\<close> stops at the first exception; it
  returns the log of the requests it made.
\<close>

fun send_batches ::
  "('a list list \<Rightarrow> 'a list \<Rightarrow> error option) \<Rightarrow> 'a list list \<Rightarrow> 'a list list
     \<Rightarrow> error option \<times> 'a list list"
where
  "send_batches update [] sent = (None, sent)"
| "send_batches update (batch # rest) sent =
     (case update sent batch of
        Some e \<Rightarrow> (Some e, sent @ [batch])
      | None \<Rightarrow> send_batches update rest (sent @ [batch]))"

text \<open>
  The \<^verbatim>\<open>async\<close> functions contain no \<^verbatim>\<open>await\<close>: their bodies run sequentially once
  awaited, and are modelled so. Each returns its result and the log of update requests.
\<close>

definition seller_upload_prices ::
  "(nat \<Rightarrow> string \<Rightarrow> error + ozon_page) \<Rightarrow> (ozon_price list list \<Rightarrow> ozon_price list \<Rightarrow> error option)
     \<Rightarrow> feed_row list \<Rightarrow> ((error + ozon_price list) \<times> ozon_price list list) option"
where
  "seller_upload_prices get_product_list update_price watch_remnants =
     (case seller_get_offer_ids get_product_list of
        None \<Rightarrow> None
      | Some (Inl e) \<Rightarrow> Some (Inl e, [])
      | Some (Inr offer_ids) \<Rightarrow>
          (case seller_create_prices watch_remnants offer_ids of
             (Inl e, _) \<Rightarrow> Some (Inl e, [])
           | (Inr prices, _) \<Rightarrow>
               (case divide_list prices 1000 of
                  Inl e \<Rightarrow> Some (Inl e, [])
                | Inr batches \<Rightarrow>
                    (case send_batches update_price batches [] of
                       (Some e, sent) \<Rightarrow> Some (Inl e, sent)
                     | (None, sent) \<Rightarrow> Some (Inr prices, sent)))))"

definition seller_upload_stocks ::
  "(string \<Rightarrow> int option) \<Rightarrow> (nat \<Rightarrow> string \<Rightarrow> error + ozon_page) \<Rightarrow> (ozon_stock list list \<Rightarrow> ozon_stock list \<Rightarrow> error option)
     \<Rightarrow> feed_row list
     \<Rightarrow> ((error + ozon_stock list \<times> ozon_stock list) \<times> ozon_stock list list) option"
where
  "seller_upload_stocks int_str get_product_list update_stocks watch_remnants =
     (case seller_get_offer_ids get_product_list of
        None \<Rightarrow> None
      | Some (Inl e) \<Rightarrow> Some (Inl e, [])
      | Some (Inr offer_ids) \<Rightarrow>
          (case seller_create_stocks int_str watch_remnants offer_ids of
             (Inl e, _) \<Rightarrow> Some (Inl e, [])
           | (Inr stocks, _) \<Rightarrow>
               (case divide_list stocks 100 of
                  Inl e \<Rightarrow> Some (Inl e, [])
                | Inr batches \<Rightarrow>
                    (case send_batches update_stocks batches [] of
                       (Some e, sent) \<Rightarrow> Some (Inl e, sent)
                     | (None, sent) \<Rightarrow>
                         Some (Inr (filter (\<lambda>s. stock_count s \<noteq> 0) stocks, stocks), sent)))))"

text \<open>
  \<^verbatim>\<open>main\<close> catches every exception of its \<^verbatim>\<open>try\<close> block and prints a message; the run is
  what it printed and the update requests it made. The environment variables, read before
  the \<^verbatim>\<open>try\<close> block, are not modelled; \<^verbatim>\<open>download_stock\<close> is a parameter, the feed rows or
  the exception it raises.
\<close>

datatype printed = Nothing | Timeout_message | Connection_message error | Error_message error

fun handler :: "error \<Rightarrow> printed" where
  "handler ReadTimeout = Timeout_message"
| "handler ConnectionError = Connection_message ConnectionError"
| "handler e = Error_message e"

record seller_run =
  run_printed :: printed
  stock_requests :: "ozon_stock list list"
  price_requests :: "ozon_price list list"

definition seller_main ::
  "(string \<Rightarrow> int option) \<Rightarrow> (nat \<Rightarrow> string \<Rightarrow> error + ozon_page) \<Rightarrow> (error + feed_row list)
     \<Rightarrow> (ozon_stock list list \<Rightarrow> ozon_stock list \<Rightarrow> error option)
     \<Rightarrow> (ozon_price list list \<Rightarrow> ozon_price list \<Rightarrow> error option) \<Rightarrow> seller_run option"
where
  "seller_main int_str get_product_list download_stock update_stocks update_price =
     (case seller_get_offer_ids get_product_list of
        None \<Rightarrow> None
      | Some (Inl e) \<Rightarrow>
          Some \<lparr>run_printed = handler e, stock_requests = [], price_requests = []\<rparr>
      | Some (Inr offer_ids) \<Rightarrow>
          (case download_stock of
             Inl e \<Rightarrow> Some \<lparr>run_printed = handler e, stock_requests = [], price_requests = []\<rparr>
           | Inr watch_remnants \<Rightarrow>
               (case seller_create_stocks int_str watch_remnants offer_ids of
                  (Inl e, _) \<Rightarrow>
                    Some \<lparr>run_printed = handler e, stock_requests = [], price_requests = []\<rparr>
                | (Inr stocks, offer_ids') \<Rightarrow>
                    (case divide_list stocks 100 of
                       Inl e \<Rightarrow>
                         Some \<lparr>run_printed = handler e, stock_requests = [],
                               price_requests = []\<rparr>
                     | Inr stock_batches \<Rightarrow>
                         (case send_batches update_stocks stock_batches [] of
                            (Some e, sent) \<Rightarrow>
                              Some \<lparr>run_printed = handler e, stock_requests = sent,
                                    price_requests = []\<rparr>
                          | (None, sent) \<Rightarrow>
                              (case seller_create_prices watch_remnants offer_ids' of
                                 (Inl e, _) \<Rightarrow>
                                   Some \<lparr>run_printed = handler e, stock_requests = sent,
                                         price_requests = []\<rparr>
                               | (Inr prices, _) \<Rightarrow>
                                   (case divide_list prices 900 of
                                      Inl e \<Rightarrow>
                                        Some \<lparr>run_printed = handler e, stock_requests = sent,
                                              price_requests = []\<rparr>
                                    | Inr price_batches \<Rightarrow>
                                        (case send_batches update_price price_batches [] of
                                           (Some e, psent) \<Rightarrow>
                                             Some \<lparr>run_printed = handler e,
                                                   stock_requests = sent,
                                                   price_requests = psent\<rparr>
                                         | (None, psent) \<Rightarrow>
                                             Some \<lparr>run_printed = Nothing,
                                                   stock_requests = sent,
                                                   price_requests = psent\<rparr>))))))))"

section \<open>market.py\<close>

text \<open>
  \<^verbatim>\<open>create_stocks\<close> of \<^verbatim>\<open>market.py\<close> reads the clock once (\<^verbatim>\<open>date\<close>); the value read is a
  parameter.
\<close>

fun market_stocks_loop ::
  "(string \<Rightarrow> int option) \<Rightarrow> feed_row list \<Rightarrow> string list \<Rightarrow> string \<Rightarrow> string \<Rightarrow> market_stock list
     \<Rightarrow> (error + market_stock list) \<times> string list"
where
  "market_stocks_loop int_str [] offer_ids warehouse_id date stocks = (Inr stocks, offer_ids)"
| "market_stocks_loop int_str (watch # rest) offer_ids warehouse_id date stocks =
     (if py_str (row_code watch) \<in> set offer_ids then
        (let count = py_str (row_count watch) in
         case (if count = ''>10'' then Inr 100
               else if count = ''1'' then Inr 0
               else py_int int_str (row_count watch)) of
           Inl e \<Rightarrow> (Inl e, offer_ids)
         | Inr stock \<Rightarrow>
             market_stocks_loop int_str rest (remove1 (py_str (row_code watch)) offer_ids)
               warehouse_id date
               (stocks @ [\<lparr>sku = py_str (row_code watch), warehouseId = warehouse_id,
                            stock_items = [\<lparr>item_count = stock, item_type = ''FIT'',
                                              updatedAt = date\<rparr>]\<rparr>]))
      else market_stocks_loop int_str rest offer_ids warehouse_id date stocks)"

definition market_create_stocks ::
  "(string \<Rightarrow> int option) \<Rightarrow> feed_row list \<Rightarrow> string list \<Rightarrow> string \<Rightarrow> string
     \<Rightarrow> (error + market_stock list) \<times> string list"
where
  "market_create_stocks int_str watch_remnants offer_ids warehouse_id date =
     (case market_stocks_loop int_str watch_remnants offer_ids warehouse_id date [] of
        (Inl e, offer_ids') \<Rightarrow> (Inl e, offer_ids')
      | (Inr stocks, offer_ids') \<Rightarrow>
          (Inr (stocks @
                map (\<lambda>offer_id. \<lparr>sku = offer_id, warehouseId = warehouse_id,
                                   stock_items = [\<lparr>item_count = 0, item_type = ''FIT'',
                                                     updatedAt = date\<rparr>]\<rparr>) offer_ids'),
           offer_ids'))"

fun market_prices_loop ::
  "(string \<Rightarrow> int option) \<Rightarrow> feed_row list \<Rightarrow> string list \<Rightarrow> market_price list
     \<Rightarrow> (error + market_price list) \<times> string list"
where
  "market_prices_loop int_str [] offer_ids prices = (Inr prices, offer_ids)"
| "market_prices_loop int_str (watch # rest) offer_ids prices =
     (if py_str (row_code watch) \<in> set offer_ids then
        (case price_conversion (row_price watch) of
           Inl e \<Rightarrow> (Inl e, offer_ids)
         | Inr p \<Rightarrow>
             (case py_int int_str (VStr p) of
                Inl e \<Rightarrow> (Inl e, offer_ids)
              | Inr v \<Rightarrow>
                  market_prices_loop int_str rest offer_ids
                    (prices @ [\<lparr>price_id = py_str (row_code watch),
                                 price_body = \<lparr>price_value = v, currencyId = ''RUR''\<rparr>\<rparr>])))
      else market_prices_loop int_str rest offer_ids prices)"

definition market_create_prices ::
  "(string \<Rightarrow> int option) \<Rightarrow> feed_row list \<Rightarrow> string list \<Rightarrow> (error + market_price list) \<times> string list"
where
  "market_create_prices int_str watch_remnants offer_ids = market_prices_loop int_str watch_remnants offer_ids []"

text \<open>
  \<^verbatim>\<open>get_offer_ids\<close> of \<^verbatim>\<open>market.py\<close> stops at a page whose \<^verbatim>\<open>nextPageToken\<close> is falsy:
  missing or the empty string.
\<close>

partial_function (option) market_offers_loop ::
  "(nat \<Rightarrow> string \<Rightarrow> error + market_page) \<Rightarrow> nat \<Rightarrow> string \<Rightarrow> market_entry list
     \<Rightarrow> (error + market_entry list) option"
where
  "market_offers_loop get_product_list k page product_list =
     (case get_product_list k page of
        Inl e \<Rightarrow> Some (Inl e)
      | Inr some_prod \<Rightarrow>
          (case nextPageToken some_prod of
             None \<Rightarrow> Some (Inr (product_list @ offerMappingEntries some_prod))
           | Some page' \<Rightarrow>
               if page' = '''' then Some (Inr (product_list @ offerMappingEntries some_prod))
               else market_offers_loop get_product_list (Suc k) page'
                      (product_list @ offerMappingEntries some_prod)))"

declare market_offers_loop.simps [code]

definition market_get_offer_ids ::
  "(nat \<Rightarrow> string \<Rightarrow> error + market_page) \<Rightarrow> (error + string list) option"
where
  "market_get_offer_ids get_product_list =
     (case market_offers_loop get_product_list 0 '''' [] of
        None \<Rightarrow> None
      | Some (Inl e) \<Rightarrow> Some (Inl e)
      | Some (Inr product_list) \<Rightarrow> Some (Inr (map shopSku product_list)))"

definition market_upload_prices ::
  "(string \<Rightarrow> int option) \<Rightarrow> (nat \<Rightarrow> string \<Rightarrow> error + market_page)
     \<Rightarrow> (market_price list list \<Rightarrow> market_price list \<Rightarrow> error option)
     \<Rightarrow> feed_row list \<Rightarrow> ((error + market_price list) \<times> market_price list list) option"
where
  "market_upload_prices int_str get_product_list update_price watch_remnants =
     (case market_get_offer_ids get_product_list of
        None \<Rightarrow> None
      | Some (Inl e) \<Rightarrow> Some (Inl e, [])
      | Some (Inr offer_ids) \<Rightarrow>
          (case market_create_prices int_str watch_remnants offer_ids of
             (Inl e, _) \<Rightarrow> Some (Inl e, [])
           | (Inr prices, _) \<Rightarrow>
               (case divide_list prices 500 of
                  Inl e \<Rightarrow> Some (Inl e, [])
                | Inr batches \<Rightarrow>
                    (case send_batches update_price batches [] of
                       (Some e, sent) \<Rightarrow> Some (Inl e, sent)
                     | (None, sent) \<Rightarrow> Some (Inr prices, sent)))))"

text \<open>
  In \<^verbatim>\<open>upload_stocks\<close> the filter reads \<^verbatim>\<open>stock.get("items")[0]\<close>; every entry that
  \<^verbatim>\<open>create_stocks\<close> builds has exactly one item, so the empty case below is never reached.
\<close>

definition market_upload_stocks ::
  "(string \<Rightarrow> int option) \<Rightarrow> (nat \<Rightarrow> string \<Rightarrow> error + market_page)
     \<Rightarrow> (market_stock list list \<Rightarrow> market_stock list \<Rightarrow> error option)
     \<Rightarrow> feed_row list \<Rightarrow> string \<Rightarrow> string
     \<Rightarrow> ((error + market_stock list \<times> market_stock list) \<times> market_stock list list) option"
where
  "market_upload_stocks int_str get_product_list update_stocks watch_remnants warehouse_id date =
     (case market_get_offer_ids get_product_list of
        None \<Rightarrow> None
      | Some (Inl e) \<Rightarrow> Some (Inl e, [])
      | Some (Inr offer_ids) \<Rightarrow>
          (case market_create_stocks int_str watch_remnants offer_ids warehouse_id date of
             (Inl e, _) \<Rightarrow> Some (Inl e, [])
           | (Inr stocks, _) \<Rightarrow>
               (case divide_list stocks 2000 of
                  Inl e \<Rightarrow> Some (Inl e, [])
                | Inr batches \<Rightarrow>
                    (case send_batches update_stocks batches [] of
                       (Some e, sent) \<Rightarrow> Some (Inl e, sent)
                     | (None, sent) \<Rightarrow>
                         Some (Inr (filter (\<lambda>s. case stock_items s of
                                                   [] \<Rightarrow> False
                                                 | i # _ \<Rightarrow> item_count i \<noteq> 0) stocks,
                                    stocks), sent)))))"

section \<open>Functions used to state the properties\<close>

text \<open>
  The first error of a list of results, or all their values: what a loop that appends one
  entry per element and lets the first exception escape computes.
\<close>

fun collect :: "(error + 'a) list \<Rightarrow> error + 'a list" where
  "collect [] = Inr []"
| "collect (Inl e # rs) = Inl e"
| "collect (Inr v # rs) = (case collect rs of Inl e \<Rightarrow> Inl e | Inr vs \<Rightarrow> Inr (v # vs))"

text \<open>
  The feed rows without the later rows that repeat a code (as a string) seen before, or
  listed in \<open>seen\<close>.
\<close>

fun first_rows :: "string list \<Rightarrow> feed_row list \<Rightarrow> feed_row list" where
  "first_rows seen [] = []"
| "first_rows seen (w # ws) =
     (if py_str (row_code w) \<in> set seen then first_rows seen ws
      else w # first_rows (py_str (row_code w) # seen) ws)"

text \<open>
  The count of the specification: 100 for the label \<^verbatim>\<open>>10\<close>, 0 for the label \<^verbatim>\<open>1\<close>, what
  \<^verbatim>\<open>int\<close> returns for the quantity cell otherwise.
\<close>

definition resolved_count :: "(string \<Rightarrow> int option) \<Rightarrow> pyval \<Rightarrow> error + int" where
  "resolved_count int_str label =
     (if py_str label = ''>10'' then Inr 100
      else if py_str label = ''1'' then Inr 0
      else py_int int_str label)"

definition stock_update :: "(string \<Rightarrow> int option) \<Rightarrow> feed_row \<Rightarrow> error + ozon_stock" where
  "stock_update int_str w =
     (case resolved_count int_str (row_count w) of
        Inl e \<Rightarrow> Inl e
      | Inr n \<Rightarrow> Inr \<lparr>stock_offer_id = py_str (row_code w), stock_count = n\<rparr>)"

text \<open>
  The stock updates as the specification words them: one for each feed row whose code is
  in the offer-id list, in feed order, then one with count 0 for every offer id that is no
  row's code, in the order of the list.
\<close>

definition stocks_as_specified :: "(string \<Rightarrow> int option) \<Rightarrow> feed_row list \<Rightarrow> string list \<Rightarrow> error + ozon_stock list" where
  "stocks_as_specified int_str rows offer_ids =
     (case collect (map (stock_update int_str)
                      (filter (\<lambda>w. py_str (row_code w) \<in> set offer_ids) rows)) of
        Inl e \<Rightarrow> Inl e
      | Inr updates \<Rightarrow>
          Inr (updates @
               map (\<lambda>i. \<lparr>stock_offer_id = i, stock_count = 0\<rparr>)
                 (filter (\<lambda>i. i \<notin> set (map (\<lambda>w. py_str (row_code w)) rows)) offer_ids)))"

text \<open>The stock entry of \<^verbatim>\<open>market.py\<close> that carries the data of an entry of \<^verbatim>\<open>seller.py\<close>.\<close>

definition market_of_stock :: "string \<Rightarrow> string \<Rightarrow> ozon_stock \<Rightarrow> market_stock" where
  "market_of_stock warehouse_id date s =
     \<lparr>sku = stock_offer_id s, warehouseId = warehouse_id,
      stock_items = [\<lparr>item_count = stock_count s, item_type = ''FIT'', updatedAt = date\<rparr>]\<rparr>"

text \<open>The price entry each module builds for one feed row.\<close>

definition seller_price_entry :: "feed_row \<Rightarrow> error + ozon_price" where
  "seller_price_entry w =
     (case price_conversion (row_price w) of
        Inl e \<Rightarrow> Inl e
      | Inr p \<Rightarrow>
          Inr \<lparr>auto_action_enabled = ''UNKNOWN'', currency_code = ''RUB'',
               price_offer_id = py_str (row_code w), old_price = ''0'', price_text = p\<rparr>)"

definition market_price_entry :: "(string \<Rightarrow> int option) \<Rightarrow> feed_row \<Rightarrow> error + market_price" where
  "market_price_entry int_str w =
     (case price_conversion (row_price w) of
        Inl e \<Rightarrow> Inl e
      | Inr p \<Rightarrow>
          (case py_int int_str (VStr p) of
             Inl e \<Rightarrow> Inl e
           | Inr v \<Rightarrow>
               Inr \<lparr>price_id = py_str (row_code w),
                    price_body = \<lparr>price_value = v, currencyId = ''RUR''\<rparr>\<rparr>))"

text \<open>
  The answers of the built-in on the four strings that the examples below hand to it:
  \<^verbatim>\<open>int("5")\<close> is 5, \<^verbatim>\<open>int("550")\<close> is 550, and \<^verbatim>\<open>int("many")\<close> and \<^verbatim>\<open>int("")\<close> raise
  ValueError. The examples run the code with this table in the place of \<open>int_str\<close> and
  ask it about no other string; every general property is proved for an arbitrary
  \<open>int_str\<close>.
\<close>

definition example_int :: "string \<Rightarrow> int option" where
  "example_int = map_of [(''5'', 5), (''550'', 550)]"

text \<open>
  The feed row of the docstring examples: code 69791 (an integer cell), quantity \<^verbatim>\<open>>10\<close>,
  price 550.00 followed by the currency word.
\<close>

definition row_69791 :: feed_row where
  "row_69791 =
     \<lparr>row_code = VInt 69791, row_count = VStr ''>10'', row_price = VStr (''550.00 '' @ rub @ ''.'')\<rparr>"

text \<open>
  A run of \<^verbatim>\<open>get_offer_ids\<close> is described by the pages it received. For \<^verbatim>\<open>seller.py\<close>:
  the \<^verbatim>\<open>last_id\<close> sent with request \<open>k\<close> when the pages \<open>ps\<close> came before, and the
  statement that the first \<open>length ps\<close> requests are answered by the pages \<open>ps\<close>, none of
  which brings the running count of items to the reported total.
\<close>

definition ozon_request :: "ozon_page list \<Rightarrow> nat \<Rightarrow> string" where
  "ozon_request ps k = (if k = 0 then '''' else page_last_id (ps ! (k - 1)))"

definition ozon_answers :: "(nat \<Rightarrow> string \<Rightarrow> error + ozon_page) \<Rightarrow> ozon_page list \<Rightarrow> bool" where
  "ozon_answers get_product_list ps =
     list_all
       (\<lambda>k. get_product_list k (ozon_request ps k) = Inr (ps ! k)
            \<and> page_total (ps ! k) \<noteq> int (length (concat (map page_items (take (Suc k) ps)))))
       [0..<length ps]"

text \<open>
  For \<^verbatim>\<open>market.py\<close>: the page token sent with request \<open>k\<close>, and the statement that the
  first \<open>length qs\<close> requests are answered by the pages \<open>qs\<close>, each with a continuation
  token that is not empty.
\<close>

definition market_request :: "market_page list \<Rightarrow> nat \<Rightarrow> string" where
  "market_request qs k =
     (if k = 0 then ''''
      else (case nextPageToken (qs ! (k - 1)) of None \<Rightarrow> '''' | Some t \<Rightarrow> t))"

definition market_answers ::
  "(nat \<Rightarrow> string \<Rightarrow> error + market_page) \<Rightarrow> market_page list \<Rightarrow> bool"
where
  "market_answers get_product_list qs =
     list_all
       (\<lambda>k. get_product_list k (market_request qs k) = Inr (qs ! k)
            \<and> nextPageToken (qs ! k) \<noteq> None \<and> nextPageToken (qs ! k) \<noteq> Some '''')
       [0..<length qs]"

text \<open>
  Page sources for the examples. Ozon: a catalogue of the two offers 69791 and 70000 served
  in two pages, the same with a server error at the second request, the catalogue served
  in one page, and a catalogue of the single offer 69791. Yandex Market: two pages, and the
  same with an error at the second request.
\<close>

definition ozon_two_pages :: "nat \<Rightarrow> string \<Rightarrow> error + ozon_page" where
  "ozon_two_pages k last_id =
     (if k = 0 \<and> last_id = '''' then
        Inr \<lparr>page_items = [\<lparr>product_offer_id = ''69791''\<rparr>], page_total = 2, page_last_id = ''a1''\<rparr>
      else if k = 1 \<and> last_id = ''a1'' then
        Inr \<lparr>page_items = [\<lparr>product_offer_id = ''70000''\<rparr>], page_total = 2, page_last_id = ''a2''\<rparr>
      else Inl (HTTPError 400))"

definition ozon_second_fails :: "nat \<Rightarrow> string \<Rightarrow> error + ozon_page" where
  "ozon_second_fails k last_id =
     (if k = 0 \<and> last_id = '''' then
        Inr \<lparr>page_items = [\<lparr>product_offer_id = ''69791''\<rparr>], page_total = 2, page_last_id = ''a1''\<rparr>
      else Inl (HTTPError 500))"

definition ozon_one_page :: "nat \<Rightarrow> string \<Rightarrow> error + ozon_page" where
  "ozon_one_page k last_id =
     Inr \<lparr>page_items = [\<lparr>product_offer_id = ''69791''\<rparr>, \<lparr>product_offer_id = ''70000''\<rparr>],
          page_total = 2, page_last_id = ''a2''\<rparr>"

definition ozon_single_offer :: "nat \<Rightarrow> string \<Rightarrow> error + ozon_page" where
  "ozon_single_offer k last_id =
     Inr \<lparr>page_items = [\<lparr>product_offer_id = ''69791''\<rparr>], page_total = 1, page_last_id = ''a1''\<rparr>"

definition market_two_pages :: "nat \<Rightarrow> string \<Rightarrow> error + market_page" where
  "market_two_pages k page =
     (if k = 0 \<and> page = '''' then
        Inr \<lparr>offerMappingEntries = [\<lparr>shopSku = ''69791''\<rparr>], nextPageToken = Some ''t1''\<rparr>
      else if k = 1 \<and> page = ''t1'' then
        Inr \<lparr>offerMappingEntries = [\<lparr>shopSku = ''70000''\<rparr>], nextPageToken = Some ''''\<rparr>
      else Inl (HTTPError 400))"

definition market_second_fails :: "nat \<Rightarrow> string \<Rightarrow> error + market_page" where
  "market_second_fails k page =
     (if k = 0 \<and> page = '''' then
        Inr \<lparr>offerMappingEntries = [\<lparr>shopSku = ''69791''\<rparr>], nextPageToken = Some ''t1''\<rparr>
      else Inl (HTTPError 500))"

text \<open>
  The price entry of \<^verbatim>\<open>seller.py\<close> for the row of the examples, and an update collaborator
  that accepts every batch.
\<close>

definition price_69791 :: ozon_price where
  "price_69791 =
     \<lparr>auto_action_enabled = ''UNKNOWN'', currency_code = ''RUB'', price_offer_id = ''69791'',
      old_price = ''0'', price_text = ''550''\<rparr>"

definition accept_all :: "'a list list \<Rightarrow> 'a list \<Rightarrow> error option" where
  "accept_all sent batch = None"

section \<open>Properties of price_conversion\<close>

lemma py_split_head:
  "\<exists>ps. py_split sep s = takeWhile (\<lambda>c. c \<noteq> sep) s # ps"
  by (induction s) (auto split: list.splits)

text \<open>
  Claim C4. For every string price label, \<^verbatim>\<open>price_conversion\<close> returns the part of the
  label before its first \<^verbatim>\<open>.\<close> with every character that is not a digit removed. In
  particular the label 5'990.00 followed by the currency word gives 5990, the label
  550.00 gives 550, and with a comma as separator the digits after it are kept: 5'990,00
  gives 599000.
\<close>

theorem price_conversion_digits_before_point:
  "price_conversion (VStr s) = Inr (filter is_digit (takeWhile (\<lambda>c. c \<noteq> CHR ''.'') s))
   \<and> price_conversion (VStr (''5'990.00 '' @ rub @ ''.'')) = Inr ''5990''
   \<and> price_conversion (VStr (''550.00 '' @ rub @ ''.'')) = Inr ''550''
   \<and> price_conversion (VStr (''5'990,00 '' @ rub @ ''.'')) = Inr ''599000''"
proof -
  have gen: "price_conversion (VStr t) = Inr (filter is_digit (takeWhile (\<lambda>c. c \<noteq> CHR ''.'') t))"
    for t
  proof -
    obtain ps where "py_split (CHR ''.'') t = takeWhile (\<lambda>c. c \<noteq> CHR ''.'') t # ps"
      using py_split_head by blast
    then show ?thesis by (simp add: price_conversion_def)
  qed
  show ?thesis
    by (simp add: gen is_digit_def rub_def)
qed

section \<open>Properties of divide\<close>

text \<open>
  For a positive \<open>n\<close> the chunks are \<open>take n (drop (k * n) lst)\<close> for
  \<open>k\<close> below the number of chunks, the length of the list divided by \<open>n\<close> and rounded up.
\<close>

lemma range_len_up:
  assumes "0 < n"
  shows "range_len 0 (int m) n = (m + nat n - 1) div nat n"
proof (cases "m = 0")
  case True
  with assms show ?thesis by (simp add: range_len_def)
next
  case False
  define N where "N = nat n"
  have n: "n = int N" and N: "0 < N" using assms by (simp_all add: N_def)
  have "(int m - 1) div int N = int ((m - 1) div N)"
    using False by (simp add: zdiv_int of_nat_diff)
  moreover have "(m - 1) div N + 1 = (m + N - 1) div N"
  proof -
    have e: "m + N - 1 = (m - 1) + N" using False by simp
    have "(m + N - 1) div N = ((m - 1) + N) div N" by (simp only: e)
    also have "\<dots> = (m - 1) div N + 1" using N by (simp add: div_add_self2)
    finally show ?thesis by simp
  qed
  ultimately show ?thesis
    using False N by (simp add: range_len_def n nat_add_distrib)
qed

lemma chunk_start_in_range:
  assumes "0 < N" "k < (m + N - 1) div N"
  shows "k * N < (m::nat)"
proof -
  have "Suc k \<le> (m + N - 1) div N" using assms by simp
  then have "Suc k * N \<le> ((m + N - 1) div N) * N" by (rule mult_le_mono1)
  also have "\<dots> \<le> m + N - 1" by (rule div_times_less_eq_dividend)
  finally show ?thesis using assms(1) by simp
qed

lemma chunks_cover:
  assumes "0 < N"
  shows "(m::nat) \<le> ((m + N - 1) div N) * N"
proof -
  have "m + N - 1 = ((m + N - 1) div N) * N + (m + N - 1) mod N" by simp
  moreover have "(m + N - 1) mod N < N" using assms by simp
  ultimately show ?thesis by linarith
qed

lemma py_slice_nat:
  "py_slice lst (int a) (int b)
   = take (min b (length lst) - min a (length lst)) (drop (min a (length lst)) lst)"
proof -
  have l: "min (int a) (int (length lst)) = int (min a (length lst))" by simp
  have h: "min (int b) (int (length lst)) = int (min b (length lst))" by simp
  have d: "nat (int (min b (length lst)) - int (min a (length lst)))
           = min b (length lst) - min a (length lst)"
    by linarith
  show ?thesis
    unfolding py_slice_def Let_def by (simp only: of_nat_less_0_iff if_False l h d nat_int)
qed
lemma py_slice_chunk:
  assumes "0 < n" "k * nat n < length lst"
  shows "py_slice lst (int k * n) (int k * n + n) = take (nat n) (drop (k * nat n) lst)"
proof -
  define N where "N = nat n"
  have n: "n = int N" and N: "0 < N" using assms by (simp_all add: N_def)
  have lo: "int k * n = int (k * N)" by (simp add: n)
  have hi: "int k * n + n = int (k * N + N)" by (simp add: n)
  have a: "min (k * N) (length lst) = k * N" using assms(2) by (simp add: N_def)
  have "py_slice lst (int (k * N)) (int (k * N + N))
        = take (min (k * N + N) (length lst) - k * N) (drop (k * N) lst)"
    by (simp only: py_slice_nat a)
  also have "\<dots> = take N (drop (k * N) lst)"
    by (simp add: min_def)
  finally have r: "py_slice lst (int (k * N)) (int (k * N + N)) = take N (drop (k * N) lst)" .
  show ?thesis unfolding hi unfolding lo using r by (simp only: N_def)
qed

lemma divide_pos:
  assumes "0 < n"
  shows "divide_list lst n =
         Inr (map (\<lambda>k. take (nat n) (drop (k * nat n) lst))
                  [0..<(length lst + nat n - 1) div nat n])"
proof -
  have "map (\<lambda>i. py_slice lst i (i + n))
            (map (\<lambda>k. 0 + int k * n) [0..<(length lst + nat n - 1) div nat n])
        = map (\<lambda>k. take (nat n) (drop (k * nat n) lst))
              [0..<(length lst + nat n - 1) div nat n]"
    using assms by (auto simp: py_slice_chunk chunk_start_in_range)
  then show ?thesis
    using assms by (simp add: divide_list_def py_range_def range_len_up)
qed

lemma concat_chunks_take:
  "concat (map (\<lambda>k. take N (drop (k * N) xs)) [0..<m]) = take (m * N) xs"
proof (induction m)
  case 0
  show ?case by simp
next
  case (Suc m)
  have "take (m * N) xs @ take N (drop (m * N) xs) = take (m * N + N) xs"
    by (simp add: take_add)
  with Suc show ?case by (simp add: add.commute)
qed

text \<open>
  Claim C5. For every list \<open>S\<close> and every \<open>n > 0\<close>, \<^verbatim>\<open>divide\<close> returns chunks whose
  concatenation is \<open>S\<close>; every chunk has between 1 and \<open>n\<close> elements, every chunk but the
  last has exactly \<open>n\<close>, and an empty \<open>S\<close> gives no chunk.
\<close>

theorem divide_chunks:
  assumes "0 < n"
  shows "\<exists>cs. divide_list S n = Inr cs \<and> concat cs = S
            \<and> (\<forall>c \<in> set cs. 1 \<le> length c \<and> int (length c) \<le> n)
            \<and> (\<forall>k. Suc k < length cs \<longrightarrow> int (length (cs ! k)) = n)
            \<and> (S = [] \<longrightarrow> cs = [])"
proof -
  define N where "N = nat n"
  define m where "m = (length S + N - 1) div N"
  define cs where "cs = map (\<lambda>k. take N (drop (k * N) S)) [0..<m]"
  have N: "0 < N" and n: "n = int N" using assms by (simp_all add: N_def)
  have div: "divide_list S n = Inr cs"
    using divide_pos [OF assms, of S] by (simp add: cs_def m_def N_def)
  have cat: "concat cs = S"
    using chunks_cover [OF N, of "length S"] by (simp add: cs_def concat_chunks_take m_def)
  have start: "k * N < length S" if "k < m" for k
    using chunk_start_in_range [OF N] that by (simp add: m_def)
  have len: "1 \<le> length c \<and> int (length c) \<le> n" if "c \<in> set cs" for c
  proof -
    from that obtain k where k: "k < m" and c: "c = take N (drop (k * N) S)"
      by (auto simp: cs_def)
    from start [OF k] N show ?thesis by (auto simp: c n min_def)
  qed
  have full: "int (length (cs ! k)) = n" if "Suc k < length cs" for k
  proof -
    from that have "Suc k < m" by (simp add: cs_def)
    from start [OF this] have "k * N + N < length S" by (simp add: add.commute)
    moreover have "cs ! k = take N (drop (k * N) S)"
      using that by (simp add: cs_def)
    ultimately show ?thesis by (auto simp: n min_def)
  qed
  have empty: "cs = []" if "S = []"
    using that N by (simp add: cs_def m_def)
  from div cat len full empty show ?thesis by blast
qed

text \<open>The example of the docstring: twelve elements in chunks of five.\<close>

theorem divide_chunks_witness:
  "(0::int) < 5
   \<and> (\<exists>cs. divide_list [1, 2, 3, 4, 5, 6, 7, 8, 9, 10, 11, 12 :: nat] 5 = Inr cs
          \<and> cs = [[1, 2, 3, 4, 5], [6, 7, 8, 9, 10], [11, 12]]
          \<and> concat cs = [1, 2, 3, 4, 5, 6, 7, 8, 9, 10, 11, 12])"
proof -
  have h: "(0::int) < 5" by simp
  have v: "divide_list [1, 2, 3, 4, 5, 6, 7, 8, 9, 10, 11, 12 :: nat] 5
           = Inr [[1, 2, 3, 4, 5], [6, 7, 8, 9, 10], [11, 12]]"
    by (simp add: divide_list_def py_range_def range_len_def py_slice_def upt_rec)
  from divide_chunks [OF h, of "[1, 2, 3, 4, 5, 6, 7, 8, 9, 10, 11, 12 :: nat]"]
  obtain cs where cs: "divide_list [1, 2, 3, 4, 5, 6, 7, 8, 9, 10, 11, 12 :: nat] 5 = Inr cs"
    and cat: "concat cs = [1, 2, 3, 4, 5, 6, 7, 8, 9, 10, 11, 12]"
    by blast
  from cs v have "cs = [[1, 2, 3, 4, 5], [6, 7, 8, 9, 10], [11, 12]]" by simp
  with cs cat h show ?thesis by blast
qed

text \<open>
  Claim C6, as amended. The claim says that \<^verbatim>\<open>divide\<close> fails for every \<open>n \<le> 0\<close>. The code
  has no check of \<open>n\<close>: for \<open>n = 0\<close> the call of \<^verbatim>\<open>range\<close> raises ValueError, and for
  \<open>n < 0\<close> the range is empty, so no chunk is produced and nothing is raised.
\<close>

theorem divide_nonpositive:
  assumes "n \<le> 0"
  shows "divide_list S n = (if n = 0 then Inl ValueError else Inr [])"
  using assms by (simp add: divide_list_def py_range_def range_len_def)

theorem divide_nonpositive_witness:
  "(0::int) \<le> 0 \<and> divide_list [1, 2, 3 :: nat] 0 = Inl ValueError
   \<and> (- 1 :: int) \<le> 0 \<and> divide_list [1, 2, 3 :: nat] (- 1) = Inr []"
  using divide_nonpositive [of 0 "[1, 2, 3 :: nat]"] divide_nonpositive [of "- 1" "[1, 2, 3 :: nat]"]
  by simp

text \<open>The claim as stated fails at \<open>n = -1\<close>: the result is the empty list of chunks, not an error.\<close>

theorem divide_negative_counterexample:
  "divide_list [1, 2, 3 :: nat] (- 1) = Inr [] \<and> \<not> (\<exists>e. divide_list [1, 2, 3 :: nat] (- 1) = Inl e)"
  by (simp add: divide_list_def py_range_def range_len_def)

section \<open>Properties of create_stocks and create_prices\<close>

subsection \<open>The loops\<close>

lemma first_rows_not_seen:
  "w \<in> set (first_rows seen rows) \<Longrightarrow> py_str (row_code w) \<notin> set seen"
proof (induction rows arbitrary: seen)
  case Nil
  then show ?case by simp
next
  case (Cons a rows)
  show ?case
  proof (cases "py_str (row_code a) \<in> set seen")
    case True
    with Cons show ?thesis by simp
  next
    case False
    with Cons.prems have "w = a \<or> w \<in> set (first_rows (py_str (row_code a) # seen) rows)"
      by simp
    then show ?thesis
    proof
      assume "w = a"
      with False show ?thesis by simp
    next
      assume "w \<in> set (first_rows (py_str (row_code a) # seen) rows)"
      from Cons.IH [OF this] show ?thesis by simp
    qed
  qed
qed

lemma remove1_distinct_filter:
  "distinct xs \<Longrightarrow> remove1 c xs = filter (\<lambda>i. i \<noteq> c) xs"
proof (induction xs)
  case Nil
  show ?case by simp
next
  case (Cons a xs)
  show ?case
  proof (cases "a = c")
    case True
    with Cons.prems have "c \<notin> set xs" by simp
    then have "filter (\<lambda>i. i \<noteq> c) xs = xs" by (auto simp: filter_id_conv)
    with True show ?thesis by simp
  next
    case False
    with Cons show ?thesis by simp
  qed
qed

lemma first_rows_codes:
  "set (map (\<lambda>w. py_str (row_code w)) (first_rows seen rows))
   = set (map (\<lambda>w. py_str (row_code w)) rows) - set seen"
  by (induction rows arbitrary: seen) auto

lemma first_rows_distinct:
  "distinct (map (\<lambda>w. py_str (row_code w)) rows)
   \<Longrightarrow> set (map (\<lambda>w. py_str (row_code w)) rows) \<inter> set seen = {}
   \<Longrightarrow> first_rows seen rows = rows"
  by (induction rows arbitrary: seen) auto

lemma seller_stocks_loop_Cons:
  "seller_stocks_loop int_str (w # rest) ids acc =
     (if py_str (row_code w) \<in> set ids then
        (case stock_update int_str w of
           Inl e \<Rightarrow> (Inl e, ids)
         | Inr u \<Rightarrow> seller_stocks_loop int_str rest (remove1 (py_str (row_code w)) ids) (acc @ [u]))
      else seller_stocks_loop int_str rest ids acc)"
  by (simp add: stock_update_def resolved_count_def Let_def split: sum.splits)

lemma seller_stocks_loop_result:
  assumes "distinct ids" "set seen \<inter> set ids = {}"
  shows "fst (seller_stocks_loop int_str rows ids acc) =
         (case collect (map (stock_update int_str)
                          (filter (\<lambda>w. py_str (row_code w) \<in> set ids) (first_rows seen rows))) of
            Inl e \<Rightarrow> Inl e
          | Inr updates \<Rightarrow> Inr (acc @ updates))"
  using assms
proof (induction rows arbitrary: ids acc seen)
  case Nil
  show ?case by simp
next
  case (Cons w rest)
  let ?c = "py_str (row_code w)"
  show ?case
  proof (cases "?c \<in> set ids")
    case True
    then have unseen: "?c \<notin> set seen" using Cons.prems(2) by auto
    have d: "distinct (remove1 ?c ids)" using Cons.prems(1) by simp
    have s: "set (?c # seen) \<inter> set (remove1 ?c ids) = {}"
      using Cons.prems by auto
    have same: "filter (\<lambda>w. py_str (row_code w) \<in> set (remove1 ?c ids)) (first_rows (?c # seen) rest)
                = filter (\<lambda>w. py_str (row_code w) \<in> set ids) (first_rows (?c # seen) rest)"
    proof (rule filter_cong [OF refl])
      fix x assume "x \<in> set (first_rows (?c # seen) rest)"
      then have "py_str (row_code x) \<noteq> ?c" using first_rows_not_seen by fastforce
      then show "(py_str (row_code x) \<in> set (remove1 ?c ids)) = (py_str (row_code x) \<in> set ids)"
        using Cons.prems(1) by simp
    qed
    show ?thesis
    proof (cases "stock_update int_str w")
      case (Inl e)
      with True unseen show ?thesis by (simp add: seller_stocks_loop_Cons del: seller_stocks_loop.simps)
    next
      case (Inr u)
      have "fst (seller_stocks_loop int_str (w # rest) ids acc)
            = fst (seller_stocks_loop int_str rest (remove1 ?c ids) (acc @ [u]))"
        using True Inr by (simp add: seller_stocks_loop_Cons del: seller_stocks_loop.simps)
      also have "\<dots> = (case collect (map (stock_update int_str)
                          (filter (\<lambda>w. py_str (row_code w) \<in> set ids) (first_rows (?c # seen) rest))) of
            Inl e \<Rightarrow> Inl e
          | Inr updates \<Rightarrow> Inr ((acc @ [u]) @ updates))"
        using Cons.IH [OF d s, of "acc @ [u]"] by (simp only: same)
      finally show ?thesis
        using True unseen Inr by (simp split: sum.splits)
    qed
  next
    case False
    have step: "seller_stocks_loop int_str (w # rest) ids acc = seller_stocks_loop int_str rest ids acc"
      using False by (simp add: seller_stocks_loop_Cons del: seller_stocks_loop.simps)
    show ?thesis
    proof (cases "?c \<in> set seen")
      case True
      then show ?thesis
        using Cons.IH [OF Cons.prems, of acc] by (simp only: step first_rows.simps if_True)
    next
      case unseen: False
      have s: "set (?c # seen) \<inter> set ids = {}" using False Cons.prems(2) by auto
      show ?thesis
        using Cons.IH [OF Cons.prems(1) s, of acc] False unseen
        by (simp add: step del: seller_stocks_loop.simps)
    qed
  qed
qed

lemma seller_stocks_loop_rest:
  assumes "distinct ids" "fst (seller_stocks_loop int_str rows ids acc) = Inr st"
  shows "snd (seller_stocks_loop int_str rows ids acc)
         = filter (\<lambda>i. i \<notin> set (map (\<lambda>w. py_str (row_code w)) rows)) ids"
  using assms
proof (induction rows arbitrary: ids acc)
  case Nil
  show ?case by simp
next
  case (Cons w rest)
  let ?c = "py_str (row_code w)"
  show ?case
  proof (cases "?c \<in> set ids")
    case True
    from Cons.prems(2) True obtain u where u: "stock_update int_str w = Inr u"
      by (cases "stock_update int_str w") (simp_all add: seller_stocks_loop_Cons del: seller_stocks_loop.simps)
    have step: "seller_stocks_loop int_str (w # rest) ids acc
                = seller_stocks_loop int_str rest (remove1 ?c ids) (acc @ [u])"
      using True u by (simp add: seller_stocks_loop_Cons del: seller_stocks_loop.simps)
    have d: "distinct (remove1 ?c ids)" using Cons.prems(1) by simp
    have a: "snd (seller_stocks_loop int_str (w # rest) ids acc)
             = filter (\<lambda>i. i \<notin> set (map (\<lambda>w. py_str (row_code w)) rest)) (remove1 ?c ids)"
      using Cons.IH [OF d] Cons.prems(2) by (simp only: step)
    have b: "filter (\<lambda>i. i \<notin> set (map (\<lambda>w. py_str (row_code w)) rest)) (remove1 ?c ids)
             = filter (\<lambda>i. i \<notin> set (map (\<lambda>w. py_str (row_code w)) (w # rest))) ids"
      using Cons.prems(1) by (auto simp: remove1_distinct_filter intro: filter_cong)
    from a b show ?thesis by (rule trans)
  next
    case False
    have step: "seller_stocks_loop int_str (w # rest) ids acc = seller_stocks_loop int_str rest ids acc"
      using False by (simp add: seller_stocks_loop_Cons del: seller_stocks_loop.simps)
    have "filter (\<lambda>i. i \<notin> set (map (\<lambda>w. py_str (row_code w)) (w # rest))) ids
          = filter (\<lambda>i. i \<notin> set (map (\<lambda>w. py_str (row_code w)) rest)) ids"
      using False by (auto intro: filter_cong)
    then show ?thesis
      using Cons.IH [OF Cons.prems(1)] Cons.prems(2) by (simp only: step)
  qed
qed

lemma seller_stocks_loop_mset:
  assumes "fst (seller_stocks_loop int_str rows ids acc) = Inr st"
  shows "mset (map stock_offer_id st) + mset (snd (seller_stocks_loop int_str rows ids acc))
         = mset (map stock_offer_id acc) + mset ids"
  using assms
proof (induction rows arbitrary: ids acc)
  case Nil
  then show ?case by simp
next
  case (Cons w rest)
  let ?c = "py_str (row_code w)"
  show ?case
  proof (cases "?c \<in> set ids")
    case True
    from Cons.prems True obtain u where u: "stock_update int_str w = Inr u"
      by (cases "stock_update int_str w") (simp_all add: seller_stocks_loop_Cons del: seller_stocks_loop.simps)
    have step: "seller_stocks_loop int_str (w # rest) ids acc
                = seller_stocks_loop int_str rest (remove1 ?c ids) (acc @ [u])"
      using True u by (simp add: seller_stocks_loop_Cons del: seller_stocks_loop.simps)
    have id: "stock_offer_id u = ?c"
      using u by (auto simp: stock_update_def split: sum.splits)
    have "mset (map stock_offer_id st) + mset (snd (seller_stocks_loop int_str rest (remove1 ?c ids) (acc @ [u])))
          = mset (map stock_offer_id (acc @ [u])) + mset (remove1 ?c ids)"
      using Cons.IH Cons.prems by (simp only: step)
    also have "\<dots> = mset (map stock_offer_id acc) + mset ids"
      using True by (simp add: id)
    finally show ?thesis by (simp only: step)
  next
    case False
    have step: "seller_stocks_loop int_str (w # rest) ids acc = seller_stocks_loop int_str rest ids acc"
      using False by (simp add: seller_stocks_loop_Cons del: seller_stocks_loop.simps)
    show ?thesis using Cons.IH Cons.prems by (simp only: step)
  qed
qed

lemma market_stocks_loop_sim:
  "market_stocks_loop int_str rows ids wh date (map (market_of_stock wh date) acc)
   = (case seller_stocks_loop int_str rows ids acc of
        (r, i) \<Rightarrow> (map_sum id (map (market_of_stock wh date)) r, i))"
proof (induction rows arbitrary: ids acc)
  case Nil
  show ?case by simp
next
  case (Cons w rest)
  show ?case
  proof (cases "py_str (row_code w) \<in> set ids")
    case False
    with Cons.IH [of ids acc] show ?thesis by simp
  next
    case True
    show ?thesis
    proof (cases "resolved_count int_str (row_count w)")
      case (Inl e)
      with True show ?thesis by (simp add: resolved_count_def Let_def)
    next
      case (Inr n)
      let ?u = "\<lparr>stock_offer_id = py_str (row_code w), stock_count = n\<rparr>"
      have "map (market_of_stock wh date) acc
              @ [\<lparr>sku = py_str (row_code w), warehouseId = wh,
                   stock_items = [\<lparr>item_count = n, item_type = ''FIT'', updatedAt = date\<rparr>]\<rparr>]
            = map (market_of_stock wh date) (acc @ [?u])"
        by (simp add: market_of_stock_def)
      with True Inr Cons.IH [of "remove1 (py_str (row_code w)) ids" "acc @ [?u]"]
      show ?thesis by (simp add: resolved_count_def Let_def)
    qed
  qed
qed

lemma market_create_stocks_sim:
  "market_create_stocks int_str rows ids wh date
   = (case seller_create_stocks int_str rows ids of
        (r, i) \<Rightarrow> (map_sum id (map (market_of_stock wh date)) r, i))"
proof -
  obtain r i where l: "seller_stocks_loop int_str rows ids [] = (r, i)" by (cases "seller_stocks_loop int_str rows ids []")
  have m: "market_stocks_loop int_str rows ids wh date [] = (map_sum id (map (market_of_stock wh date)) r, i)"
    using market_stocks_loop_sim [of int_str rows ids wh date "[]"] l by simp
  show ?thesis
    by (cases r) (simp_all add: market_create_stocks_def seller_create_stocks_def l m market_of_stock_def)
qed

lemma seller_create_stocks_fst:
  assumes "distinct ids"
  shows "fst (seller_create_stocks int_str rows ids) = stocks_as_specified int_str (first_rows [] rows) ids"
proof -
  obtain r i where l: "seller_stocks_loop int_str rows ids [] = (r, i)" by (cases "seller_stocks_loop int_str rows ids []")
  have r: "r = (case collect (map (stock_update int_str)
                          (filter (\<lambda>w. py_str (row_code w) \<in> set ids) (first_rows [] rows))) of
            Inl e \<Rightarrow> Inl e
          | Inr updates \<Rightarrow> Inr updates)"
    using seller_stocks_loop_result [OF assms, of "[]" int_str rows "[]"] l by (simp split: sum.splits)
  have codes: "set (map (\<lambda>w. py_str (row_code w)) (first_rows [] rows))
               = set (map (\<lambda>w. py_str (row_code w)) rows)"
    using first_rows_codes [of "[]" rows] by simp
  show ?thesis
  proof (cases r)
    case (Inl e)
    with r l show ?thesis
      by (simp add: seller_create_stocks_def stocks_as_specified_def split: sum.splits)
  next
    case (Inr st)
    have i: "i = filter (\<lambda>i. i \<notin> set (map (\<lambda>w. py_str (row_code w)) rows)) ids"
      using seller_stocks_loop_rest [OF assms, of int_str rows "[]" st] l Inr by simp
    from r Inr have c: "collect (map (stock_update int_str)
                          (filter (\<lambda>w. py_str (row_code w) \<in> set ids) (first_rows [] rows))) = Inr st"
      by (simp split: sum.splits)
    show ?thesis
      unfolding stocks_as_specified_def codes c
      by (simp add: seller_create_stocks_def l Inr i)
  qed
qed

lemma seller_create_stocks_snd:
  assumes "distinct ids" "fst (seller_create_stocks int_str rows ids) = Inr stocks"
  shows "snd (seller_create_stocks int_str rows ids)
         = filter (\<lambda>i. i \<notin> set (map (\<lambda>w. py_str (row_code w)) rows)) ids"
proof -
  obtain r i where l: "seller_stocks_loop int_str rows ids [] = (r, i)" by (cases "seller_stocks_loop int_str rows ids []")
  from assms(2) l obtain st where st: "r = Inr st"
    by (cases r) (simp_all add: seller_create_stocks_def)
  have "i = filter (\<lambda>i. i \<notin> set (map (\<lambda>w. py_str (row_code w)) rows)) ids"
    using seller_stocks_loop_rest [OF assms(1), of int_str rows "[]" st] l st by simp
  then show ?thesis by (simp add: seller_create_stocks_def l st)
qed

lemma seller_create_stocks_mset:
  assumes "fst (seller_create_stocks int_str rows ids) = Inr stocks"
  shows "mset (map stock_offer_id stocks) = mset ids"
proof -
  obtain r i where l: "seller_stocks_loop int_str rows ids [] = (r, i)" by (cases "seller_stocks_loop int_str rows ids []")
  from assms l obtain st where st: "r = Inr st"
    by (cases r) (simp_all add: seller_create_stocks_def)
  have stocks: "stocks = st @ map (\<lambda>offer_id. \<lparr>stock_offer_id = offer_id, stock_count = 0\<rparr>) i"
    using assms by (simp add: seller_create_stocks_def l st)
  have "mset (map stock_offer_id st) + mset i = mset ids"
    using seller_stocks_loop_mset [of int_str rows ids "[]" st] l st by simp
  then show ?thesis by (simp add: stocks comp_def)
qed

lemma seller_prices_loop_collect:
  "seller_prices_loop rows ids acc
   = (case collect (map seller_price_entry
                      (filter (\<lambda>w. py_str (row_code w) \<in> set ids) rows)) of
        Inl e \<Rightarrow> (Inl e, ids)
      | Inr ps \<Rightarrow> (Inr (acc @ ps), ids))"
proof (induction rows arbitrary: acc)
  case Nil
  show ?case by simp
next
  case (Cons w rest)
  show ?case
  proof (cases "py_str (row_code w) \<in> set ids")
    case False
    with Cons.IH [of acc] show ?thesis by simp
  next
    case True
    show ?thesis
    proof (cases "price_conversion (row_price w)")
      case (Inl e)
      with True show ?thesis by (simp add: seller_price_entry_def)
    next
      case (Inr p)
      with True Cons.IH show ?thesis
        by (simp add: seller_price_entry_def split: sum.splits)
    qed
  qed
qed

lemma market_prices_loop_collect:
  "market_prices_loop int_str rows ids acc
   = (case collect (map (market_price_entry int_str)
                      (filter (\<lambda>w. py_str (row_code w) \<in> set ids) rows)) of
        Inl e \<Rightarrow> (Inl e, ids)
      | Inr ps \<Rightarrow> (Inr (acc @ ps), ids))"
proof (induction rows arbitrary: acc)
  case Nil
  show ?case by simp
next
  case (Cons w rest)
  show ?case
  proof (cases "py_str (row_code w) \<in> set ids")
    case False
    with Cons.IH [of acc] show ?thesis by simp
  next
    case True
    show ?thesis
    proof (cases "market_price_entry int_str w")
      case (Inl e)
      with True show ?thesis
        by (auto simp: market_price_entry_def split: sum.splits)
    next
      case (Inr u)
      with True Cons.IH show ?thesis
        by (auto simp: market_price_entry_def split: sum.splits)
    qed
  qed
qed

lemma create_prices_sees_no_match:
  assumes "\<forall>w \<in> set rows. py_str (row_code w) \<notin> set ids"
  shows "seller_create_prices rows ids = (Inr [], ids)"
    and "market_create_prices int_str rows ids = (Inr [], ids)"
proof -
  have "filter (\<lambda>w. py_str (row_code w) \<in> set ids) rows = []"
    using assms by (simp add: filter_empty_conv)
  then show "seller_create_prices rows ids = (Inr [], ids)"
    and "market_create_prices int_str rows ids = (Inr [], ids)"
    by (simp_all add: seller_create_prices_def market_create_prices_def
          seller_prices_loop_collect market_prices_loop_collect)
qed

subsection \<open>Evaluation on the rows of the examples\<close>

lemma str_69791: "str_int 69791 = ''69791''"
  by (simp add: str_int_def str_nat.simps digit_char_def)

lemma row_69791_simps:
  "py_str (row_code row_69791) = ''69791''"
  "row_count row_69791 = VStr ''>10''"
  "row_price row_69791 = VStr (''550.00 '' @ rub @ ''.'')"
  by (simp_all add: row_69791_def str_69791)

lemma example_int_5: "example_int ''5'' = Some 5"
  by (simp add: example_int_def)

lemma example_int_many: "example_int ''many'' = None"
  by (simp add: example_int_def)

lemma stock_update_69791:
  "stock_update int_str row_69791 = Inr \<lparr>stock_offer_id = ''69791'', stock_count = 100\<rparr>"
  "stock_update example_int (row_69791\<lparr>row_count := VStr ''5''\<rparr>) = Inr \<lparr>stock_offer_id = ''69791'', stock_count = 5\<rparr>"
  by (simp_all add: stock_update_def resolved_count_def row_69791_simps example_int_5)

text \<open>
  Claim C1, as amended. The claim reads the membership test against the offer-id list as it
  is passed in; the code tests the list as it stands when the row is reached, after the
  ids matched by earlier rows were removed. For a duplicate-free offer-id list the result
  of \<^verbatim>\<open>create_stocks\<close> is what the claim describes, computed on the feed rows without the
  later rows that repeat a code: one update for each such row whose code is in the list,
  with count 100 for the label \<^verbatim>\<open>>10\<close>, 0 for \<^verbatim>\<open>1\<close> and otherwise the integer that \<^verbatim>\<open>int\<close>
  returns for the quantity cell, in feed order, then count 0 for every offer id that is no
  row's code, in list order. The call fails with the error that \<^verbatim>\<open>int\<close> raises on the first
  cell it rejects: ValueError for a string that it does not read as an integer, TypeError
  for a missing cell. When no code is repeated this is the claim as stated. The property
  holds whatever \<^verbatim>\<open>int\<close> returns on strings.
\<close>

theorem seller_create_stocks_first_rows:
  assumes "distinct offer_ids"
  shows "fst (seller_create_stocks int_str rows offer_ids)
           = stocks_as_specified int_str (first_rows [] rows) offer_ids
         \<and> (distinct (map (\<lambda>w. py_str (row_code w)) rows)
              \<longrightarrow> fst (seller_create_stocks int_str rows offer_ids) = stocks_as_specified int_str rows offer_ids)"
proof -
  have "first_rows [] rows = rows" if "distinct (map (\<lambda>w. py_str (row_code w)) rows)"
    using first_rows_distinct [OF that, of "[]"] by simp
  with seller_create_stocks_fst [OF assms, of int_str rows] show ?thesis by auto
qed

text \<open>
  Four runs: a feed that repeats the code 69791, the example of the docstring, a label
  that is no number, and a row without a quantity cell.
\<close>

theorem seller_create_stocks_first_rows_witness:
  "distinct [''69791'', ''70000'']
   \<and> fst (seller_create_stocks example_int [row_69791, row_69791\<lparr>row_count := VStr ''5''\<rparr>] [''69791'', ''70000''])
       = Inr [\<lparr>stock_offer_id = ''69791'', stock_count = 100\<rparr>,
              \<lparr>stock_offer_id = ''70000'', stock_count = 0\<rparr>]
   \<and> distinct (map (\<lambda>w. py_str (row_code w)) [row_69791])
   \<and> fst (seller_create_stocks example_int [row_69791] [''69791'', ''70000''])
       = Inr [\<lparr>stock_offer_id = ''69791'', stock_count = 100\<rparr>,
              \<lparr>stock_offer_id = ''70000'', stock_count = 0\<rparr>]
   \<and> fst (seller_create_stocks example_int [row_69791\<lparr>row_count := VStr ''many''\<rparr>] [''69791'', ''70000''])
       = Inl ValueError
   \<and> fst (seller_create_stocks example_int [row_69791\<lparr>row_count := VNone\<rparr>] [''69791'', ''70000''])
       = Inl TypeError"
proof -
  have d: "distinct [''69791'', ''70000'']" by simp
  have n: "stocks_as_specified example_int (first_rows [] [row_69791\<lparr>row_count := VNone\<rparr>])
             [''69791'', ''70000''] = Inl TypeError"
    by (simp add: stocks_as_specified_def row_69791_simps stock_update_def resolved_count_def)
  have c: "stocks_as_specified example_int (first_rows [] [row_69791\<lparr>row_count := VStr ''many''\<rparr>])
             [''69791'', ''70000''] = Inl ValueError"
    by (simp add: stocks_as_specified_def row_69791_simps stock_update_def resolved_count_def
          example_int_many)
  have dr: "distinct (map (\<lambda>w. py_str (row_code w)) [row_69791])" by simp
  have a: "stocks_as_specified example_int (first_rows [] [row_69791, row_69791\<lparr>row_count := VStr ''5''\<rparr>])
             [''69791'', ''70000'']
           = Inr [\<lparr>stock_offer_id = ''69791'', stock_count = 100\<rparr>,
                  \<lparr>stock_offer_id = ''70000'', stock_count = 0\<rparr>]"
    by (simp add: stocks_as_specified_def row_69791_simps stock_update_69791)
  have b: "stocks_as_specified example_int [row_69791] [''69791'', ''70000'']
           = Inr [\<lparr>stock_offer_id = ''69791'', stock_count = 100\<rparr>,
                  \<lparr>stock_offer_id = ''70000'', stock_count = 0\<rparr>]"
    by (simp add: stocks_as_specified_def row_69791_simps stock_update_69791)
  from seller_create_stocks_first_rows [OF d, of example_int "[row_69791, row_69791\<lparr>row_count := VStr ''5''\<rparr>]"]
    seller_create_stocks_first_rows [OF d, of example_int "[row_69791]"]
    seller_create_stocks_first_rows [OF d, of example_int "[row_69791\<lparr>row_count := VStr ''many''\<rparr>]"]
    seller_create_stocks_first_rows [OF d, of example_int "[row_69791\<lparr>row_count := VNone\<rparr>]"]
    a b c d dr n
  show ?thesis by simp
qed

text \<open>
  The claim as stated fails when two feed rows carry the same code: the second row finds
  its id already removed and emits nothing, where the claim's wording gives it an update
  of its own. It fails as well when the offer-id list repeats an id: the occurrence that
  no row has removed is emitted with count 0, although a feed row matched that id.
\<close>

theorem seller_create_stocks_repeated_code_counterexample:
  "fst (seller_create_stocks example_int [row_69791, row_69791\<lparr>row_count := VStr ''5''\<rparr>] [''69791'', ''70000''])
     = Inr [\<lparr>stock_offer_id = ''69791'', stock_count = 100\<rparr>,
            \<lparr>stock_offer_id = ''70000'', stock_count = 0\<rparr>]
   \<and> stocks_as_specified example_int [row_69791, row_69791\<lparr>row_count := VStr ''5''\<rparr>] [''69791'', ''70000'']
     = Inr [\<lparr>stock_offer_id = ''69791'', stock_count = 100\<rparr>,
            \<lparr>stock_offer_id = ''69791'', stock_count = 5\<rparr>,
            \<lparr>stock_offer_id = ''70000'', stock_count = 0\<rparr>]
   \<and> fst (seller_create_stocks example_int [row_69791] [''69791'', ''69791''])
     = Inr [\<lparr>stock_offer_id = ''69791'', stock_count = 100\<rparr>,
            \<lparr>stock_offer_id = ''69791'', stock_count = 0\<rparr>]
   \<and> stocks_as_specified example_int [row_69791] [''69791'', ''69791'']
     = Inr [\<lparr>stock_offer_id = ''69791'', stock_count = 100\<rparr>]"
  by (simp add: seller_create_stocks_def stocks_as_specified_def row_69791_simps stock_update_69791
        seller_stocks_loop_Cons del: seller_stocks_loop.simps(2))

lemma price_conversion_row: "price_conversion (row_price row_69791) = Inr ''550''"
  by (simp add: row_69791_def price_conversion_def is_digit_def rub_def)

lemma price_conversion_int: "price_conversion (VInt n) = Inl AttributeError"
  by (simp add: price_conversion_def)

lemma sku_market_of_stock_comp: "sku \<circ> market_of_stock wh date = stock_offer_id"
  by (rule ext) (simp add: market_of_stock_def)

lemma price_conversion_call: "price_conversion (VStr ''call'') = Inr ''''"
  by (simp add: price_conversion_def is_digit_def)

lemma example_int_550: "example_int ''550'' = Some 550"
  by (simp add: example_int_def)

lemma example_int_empty: "example_int '''' = None"
  by (simp add: example_int_def)

lemma seller_create_stocks_69791:
  "seller_create_stocks int_str [row_69791] [''69791'', ''70000'']
   = (Inr [\<lparr>stock_offer_id = ''69791'', stock_count = 100\<rparr>,
           \<lparr>stock_offer_id = ''70000'', stock_count = 0\<rparr>], [''70000''])"
  by (simp add: seller_create_stocks_def row_69791_simps stock_update_69791
        seller_stocks_loop_Cons del: seller_stocks_loop.simps(2))

lemma market_create_stocks_69791:
  "market_create_stocks int_str [row_69791] [''69791'', ''70000''] ''1'' ''2025-12-14T16:30:31Z''
   = (Inr [\<lparr>sku = ''69791'', warehouseId = ''1'',
             stock_items = [\<lparr>item_count = 100, item_type = ''FIT'',
                              updatedAt = ''2025-12-14T16:30:31Z''\<rparr>]\<rparr>,
           \<lparr>sku = ''70000'', warehouseId = ''1'',
             stock_items = [\<lparr>item_count = 0, item_type = ''FIT'',
                              updatedAt = ''2025-12-14T16:30:31Z''\<rparr>]\<rparr>], [''70000''])"
  by (simp add: market_create_stocks_sim seller_create_stocks_69791 market_of_stock_def)

text \<open>
  Claim C2. For every feed-row list and every duplicate-free offer-id list, the offer ids of
  the stock updates that \<^verbatim>\<open>create_stocks\<close> returns are, as a multiset, exactly the offer-id
  list: every id appears in exactly one update. This holds for \<^verbatim>\<open>seller.py\<close> and for
  \<^verbatim>\<open>market.py\<close>.
\<close>

theorem create_stocks_covers_offer_ids:
  assumes "distinct offer_ids"
  shows "(\<forall>stocks. fst (seller_create_stocks int_str rows offer_ids) = Inr stocks
            \<longrightarrow> mset (map stock_offer_id stocks) = mset offer_ids
                \<and> distinct (map stock_offer_id stocks))
       \<and> (\<forall>stocks. fst (market_create_stocks int_str rows offer_ids warehouse_id date) = Inr stocks
            \<longrightarrow> mset (map sku stocks) = mset offer_ids \<and> distinct (map sku stocks))"
proof -
  have seller: "mset (map stock_offer_id st) = mset offer_ids \<and> distinct (map stock_offer_id st)"
    if "fst (seller_create_stocks int_str rows offer_ids) = Inr st" for st
  proof -
    have m: "mset (map stock_offer_id st) = mset offer_ids"
      using that by (rule seller_create_stocks_mset)
    with assms have "distinct (map stock_offer_id st)"
      by (metis mset_eq_imp_distinct_iff)
    with m show ?thesis by simp
  qed
  have market: "mset (map sku stocks) = mset offer_ids \<and> distinct (map sku stocks)"
    if "fst (market_create_stocks int_str rows offer_ids warehouse_id date) = Inr stocks" for stocks
  proof -
    obtain r i where c: "seller_create_stocks int_str rows offer_ids = (r, i)"
      by (cases "seller_create_stocks int_str rows offer_ids")
    from that c obtain st where st: "r = Inr st"
      and stocks: "stocks = map (market_of_stock warehouse_id date) st"
      by (cases r) (auto simp: market_create_stocks_sim)
    have "fst (seller_create_stocks int_str rows offer_ids) = Inr st" by (simp add: c st)
    from seller [OF this] show ?thesis by (simp add: stocks sku_market_of_stock_comp)
  qed
  from seller market show ?thesis by blast
qed

text \<open>The example of the docstrings, in both modules.\<close>

theorem create_stocks_covers_offer_ids_witness:
  "distinct [''69791'', ''70000'']
   \<and> fst (seller_create_stocks example_int [row_69791] [''69791'', ''70000''])
       = Inr [\<lparr>stock_offer_id = ''69791'', stock_count = 100\<rparr>,
              \<lparr>stock_offer_id = ''70000'', stock_count = 0\<rparr>]
   \<and> mset (map stock_offer_id [\<lparr>stock_offer_id = ''69791'', stock_count = 100\<rparr>,
                                 \<lparr>stock_offer_id = ''70000'', stock_count = 0\<rparr>])
       = mset [''69791'', ''70000'']
   \<and> (\<exists>stocks. fst (market_create_stocks example_int [row_69791] [''69791'', ''70000''] ''1''
                       ''2025-12-14T16:30:31Z'') = Inr stocks
          \<and> mset (map sku stocks) = mset [''69791'', ''70000''])"
proof -
  have d: "distinct [''69791'', ''70000'']" by simp
  have s: "fst (seller_create_stocks example_int [row_69791] [''69791'', ''70000''])
           = Inr [\<lparr>stock_offer_id = ''69791'', stock_count = 100\<rparr>,
                  \<lparr>stock_offer_id = ''70000'', stock_count = 0\<rparr>]"
    by (simp add: seller_create_stocks_69791)
  obtain stocks where m: "fst (market_create_stocks example_int [row_69791] [''69791'', ''70000''] ''1''
                       ''2025-12-14T16:30:31Z'') = Inr stocks"
    by (simp add: market_create_stocks_69791)
  from create_stocks_covers_offer_ids [OF d, of example_int "[row_69791]" "''1''" "''2025-12-14T16:30:31Z''"] s m d
  show ?thesis by blast
qed

text \<open>
  Claim C10, as amended. For every feed-row list and every duplicate-free offer-id list, a
  call of \<^verbatim>\<open>create_stocks\<close> that returns leaves in the caller's list exactly the offer ids
  that are no feed row's code, in their original order; a later \<^verbatim>\<open>create_prices\<close> on the same
  list therefore matches no feed row and returns no price. This holds for both modules.
\<close>

theorem create_stocks_consumes_offer_ids:
  assumes "distinct offer_ids"
  shows "(\<forall>stocks. fst (seller_create_stocks int_str rows offer_ids) = Inr stocks
            \<longrightarrow> snd (seller_create_stocks int_str rows offer_ids)
                  = filter (\<lambda>i. i \<notin> set (map (\<lambda>w. py_str (row_code w)) rows)) offer_ids
                \<and> seller_create_prices rows (snd (seller_create_stocks int_str rows offer_ids))
                  = (Inr [], snd (seller_create_stocks int_str rows offer_ids)))
       \<and> (\<forall>stocks. fst (market_create_stocks int_str rows offer_ids warehouse_id date) = Inr stocks
            \<longrightarrow> snd (market_create_stocks int_str rows offer_ids warehouse_id date)
                  = filter (\<lambda>i. i \<notin> set (map (\<lambda>w. py_str (row_code w)) rows)) offer_ids
                \<and> market_create_prices int_str rows
                    (snd (market_create_stocks int_str rows offer_ids warehouse_id date))
                  = (Inr [], snd (market_create_stocks int_str rows offer_ids warehouse_id date)))"
proof -
  let ?rest = "filter (\<lambda>i. i \<notin> set (map (\<lambda>w. py_str (row_code w)) rows)) offer_ids"
  have none: "\<forall>w \<in> set rows. py_str (row_code w) \<notin> set ?rest" by auto
  have seller: "snd (seller_create_stocks int_str rows offer_ids) = ?rest"
    if "fst (seller_create_stocks int_str rows offer_ids) = Inr st" for st
    using assms that by (rule seller_create_stocks_snd)
  have market: "snd (market_create_stocks int_str rows offer_ids warehouse_id date) = ?rest"
    if "fst (market_create_stocks int_str rows offer_ids warehouse_id date) = Inr stocks" for stocks
  proof -
    obtain r i where c: "seller_create_stocks int_str rows offer_ids = (r, i)"
      by (cases "seller_create_stocks int_str rows offer_ids")
    from that c obtain st where st: "r = Inr st"
      by (cases r) (auto simp: market_create_stocks_sim)
    have "fst (seller_create_stocks int_str rows offer_ids) = Inr st" by (simp add: c st)
    from seller [OF this] show ?thesis by (simp add: market_create_stocks_sim c)
  qed
  from seller market create_prices_sees_no_match [OF none] show ?thesis by simp
qed

text \<open>The example of the docstrings: the id 69791 is consumed, 70000 is left.\<close>

theorem create_stocks_consumes_offer_ids_witness:
  "distinct [''69791'', ''70000'']
   \<and> seller_create_stocks example_int [row_69791] [''69791'', ''70000'']
       = (Inr [\<lparr>stock_offer_id = ''69791'', stock_count = 100\<rparr>,
               \<lparr>stock_offer_id = ''70000'', stock_count = 0\<rparr>], [''70000''])
   \<and> seller_create_prices [row_69791] [''70000''] = (Inr [], [''70000''])
   \<and> snd (market_create_stocks example_int [row_69791] [''69791'', ''70000''] ''1'' ''2025-12-14T16:30:31Z'')
       = [''70000'']
   \<and> market_create_prices example_int [row_69791] [''70000''] = (Inr [], [''70000''])"
proof -
  have d: "distinct [''69791'', ''70000'']" by simp
  from create_stocks_consumes_offer_ids [OF d, of example_int "[row_69791]" "''1''" "''2025-12-14T16:30:31Z''"]
  show ?thesis
    by (simp add: seller_create_stocks_69791 market_create_stocks_69791 row_69791_simps)
qed

text \<open>
  The claim as stated fails for an offer-id list that repeats an id: one occurrence is
  removed per matching row, so the matched id 69791 is still in the list after the call,
  and a later \<^verbatim>\<open>create_prices\<close> on the list still matches the row.
\<close>

theorem create_stocks_repeated_offer_id_counterexample:
  "seller_create_stocks example_int [row_69791] [''69791'', ''69791'']
     = (Inr [\<lparr>stock_offer_id = ''69791'', stock_count = 100\<rparr>,
             \<lparr>stock_offer_id = ''69791'', stock_count = 0\<rparr>], [''69791''])
   \<and> py_str (row_code row_69791) = ''69791''
   \<and> filter (\<lambda>i. i \<notin> set (map (\<lambda>w. py_str (row_code w)) [row_69791])) [''69791'', ''69791''] = []
   \<and> seller_create_prices [row_69791] [''69791'']
     = (Inr [\<lparr>auto_action_enabled = ''UNKNOWN'', currency_code = ''RUB'',
               price_offer_id = ''69791'', old_price = ''0'', price_text = ''550''\<rparr>], [''69791''])"
  by (simp add: seller_create_stocks_def row_69791_simps(1,2) stock_update_69791
        seller_stocks_loop_Cons seller_create_prices_def price_conversion_row
        del: seller_stocks_loop.simps(2))

text \<open>
  Claim C8, as amended. \<^verbatim>\<open>create_prices\<close> processes exactly the feed rows whose code is in the
  offer-id list, in feed order, skips the others silently and leaves the list as it was.
  For each processed row \<^verbatim>\<open>seller.py\<close> emits the entry whose price is the digit string that
  \<^verbatim>\<open>price_conversion\<close> returns, not parsed, with currency code RUB; \<^verbatim>\<open>market.py\<close> emits the
  entry whose value is what \<^verbatim>\<open>int\<close> returns for that string, with currency id RUR. The call
  fails with the first error of a processed row: AttributeError for a price cell that is
  not a string, and in \<^verbatim>\<open>market.py\<close> ValueError for a digit string that \<^verbatim>\<open>int\<close> rejects, as
  it does the empty one.
\<close>

theorem create_prices_entries:
  "seller_create_prices rows offer_ids
     = (collect (map seller_price_entry
                   (filter (\<lambda>w. py_str (row_code w) \<in> set offer_ids) rows)), offer_ids)
   \<and> market_create_prices int_str rows offer_ids
     = (collect (map (market_price_entry int_str)
                   (filter (\<lambda>w. py_str (row_code w) \<in> set offer_ids) rows)), offer_ids)
   \<and> seller_create_prices [row_69791] [''69791'', ''70000'']
     = (Inr [\<lparr>auto_action_enabled = ''UNKNOWN'', currency_code = ''RUB'',
               price_offer_id = ''69791'', old_price = ''0'', price_text = ''550''\<rparr>],
        [''69791'', ''70000''])
   \<and> market_create_prices example_int [row_69791] [''69791'', ''70000'']
     = (Inr [\<lparr>price_id = ''69791'',
               price_body = \<lparr>price_value = 550, currencyId = ''RUR''\<rparr>\<rparr>],
        [''69791'', ''70000''])"
proof -
  have s: "seller_create_prices r i
           = (collect (map seller_price_entry (filter (\<lambda>w. py_str (row_code w) \<in> set i) r)), i)"
    for r i
    by (simp add: seller_create_prices_def seller_prices_loop_collect split: sum.splits)
  have m: "market_create_prices f r i
           = (collect (map (market_price_entry f) (filter (\<lambda>w. py_str (row_code w) \<in> set i) r)), i)"
    for f r i
    by (simp add: market_create_prices_def market_prices_loop_collect split: sum.splits)
  show ?thesis
    by (simp add: s m seller_price_entry_def market_price_entry_def row_69791_simps(1,2)
          price_conversion_row example_int_550)
qed

text \<open>
  The claim as stated fails: the currency of \<^verbatim>\<open>market.py\<close> is RUR; a matched row whose
  price label has no digit before its first point makes \<^verbatim>\<open>market.py\<close> raise ValueError and
  \<^verbatim>\<open>seller.py\<close> emit an empty price string, which is no integer; and a price cell that is
  an integer raises AttributeError.
\<close>

theorem create_prices_counterexample:
  "market_create_prices example_int [row_69791] [''69791'', ''70000'']
     = (Inr [\<lparr>price_id = ''69791'',
               price_body = \<lparr>price_value = 550, currencyId = ''RUR''\<rparr>\<rparr>],
        [''69791'', ''70000''])
   \<and> market_create_prices example_int [row_69791\<lparr>row_price := VStr ''call''\<rparr>] [''69791'']
     = (Inl ValueError, [''69791''])
   \<and> seller_create_prices [row_69791\<lparr>row_price := VStr ''call''\<rparr>] [''69791'']
     = (Inr [\<lparr>auto_action_enabled = ''UNKNOWN'', currency_code = ''RUB'',
               price_offer_id = ''69791'', old_price = ''0'', price_text = ''''\<rparr>], [''69791''])
   \<and> seller_create_prices [row_69791\<lparr>row_price := VInt 550\<rparr>] [''69791'']
     = (Inl AttributeError, [''69791''])"
  by (simp add: seller_create_prices_def market_create_prices_def row_69791_simps(1,2)
        price_conversion_row price_conversion_call example_int_550 example_int_empty
        price_conversion_int)

section \<open>Properties of get_offer_ids\<close>

lemma ozon_answers_nth:
  assumes "ozon_answers g ps" "k < length ps"
  shows "g k (ozon_request ps k) = Inr (ps ! k)"
    and "page_total (ps ! k) \<noteq> int (length (concat (map page_items (take (Suc k) ps))))"
  using assms by (simp_all add: ozon_answers_def list_all_iff)

lemma seller_offers_loop_prefix:
  assumes "ozon_answers g ps" "j \<le> length ps"
  shows "seller_offers_loop g j (ozon_request ps j) (concat (map page_items (take j ps)))
         = seller_offers_loop g (length ps) (ozon_request ps (length ps))
             (concat (map page_items ps))"
  using assms(2)
proof (induction "length ps - j" arbitrary: j)
  case 0
  then show ?case by simp
next
  case (Suc d)
  then have j: "j < length ps" and d: "d = length ps - Suc j" and le: "Suc j \<le> length ps"
    by simp_all
  have acc: "concat (map page_items (take j ps)) @ page_items (ps ! j)
             = concat (map page_items (take (Suc j) ps))"
    using j by (simp add: take_Suc_conv_app_nth)
  have req: "page_last_id (ps ! j) = ozon_request ps (Suc j)"
    by (simp add: ozon_request_def)
  have "seller_offers_loop g j (ozon_request ps j) (concat (map page_items (take j ps)))
        = seller_offers_loop g (Suc j) (ozon_request ps (Suc j))
            (concat (map page_items (take (Suc j) ps)))"
    using ozon_answers_nth [OF assms(1) j]
    by (subst seller_offers_loop.simps) (simp add: acc req del: concat_append take_Suc)
  also have "\<dots> = seller_offers_loop g (length ps) (ozon_request ps (length ps))
                      (concat (map page_items ps))"
    using Suc.hyps(1) [OF d le] .
  finally show ?case .
qed

lemma seller_offers_loop_run:
  assumes "ozon_answers g ps"
  shows "seller_offers_loop g 0 '''' []
         = seller_offers_loop g (length ps) (ozon_request ps (length ps))
             (concat (map page_items ps))"
  using seller_offers_loop_prefix [OF assms, of 0] by (simp add: ozon_request_def)

lemma seller_get_offer_ids_error:
  assumes "ozon_answers g ps" "g (length ps) (ozon_request ps (length ps)) = Inl e"
  shows "seller_get_offer_ids g = Some (Inl e)"
proof -
  have "seller_offers_loop g (length ps) (ozon_request ps (length ps))
          (concat (map page_items ps)) = Some (Inl e)"
    using assms(2) by (subst seller_offers_loop.simps) simp
  then show ?thesis
    by (simp add: seller_get_offer_ids_def seller_offers_loop_run [OF assms(1)])
qed

lemma seller_get_offer_ids_done:
  assumes "ozon_answers g ps" "g (length ps) (ozon_request ps (length ps)) = Inr p"
    and "page_total p = int (length (concat (map page_items (ps @ [p]))))"
  shows "seller_get_offer_ids g
         = Some (Inr (map product_offer_id (concat (map page_items (ps @ [p])))))"
proof -
  have "seller_offers_loop g (length ps) (ozon_request ps (length ps))
          (concat (map page_items ps)) = Some (Inr (concat (map page_items (ps @ [p]))))"
    using assms(2,3) by (subst seller_offers_loop.simps) simp
  then show ?thesis
    by (simp add: seller_get_offer_ids_def seller_offers_loop_run [OF assms(1)])
qed

lemma market_answers_nth:
  assumes "market_answers g qs" "k < length qs"
  shows "g k (market_request qs k) = Inr (qs ! k)"
    and "\<exists>t. nextPageToken (qs ! k) = Some t \<and> t \<noteq> ''''"
  using assms by (auto simp: market_answers_def list_all_iff)

lemma market_offers_loop_prefix:
  assumes "market_answers g qs" "j \<le> length qs"
  shows "market_offers_loop g j (market_request qs j)
           (concat (map offerMappingEntries (take j qs)))
         = market_offers_loop g (length qs) (market_request qs (length qs))
             (concat (map offerMappingEntries qs))"
  using assms(2)
proof (induction "length qs - j" arbitrary: j)
  case 0
  then show ?case by simp
next
  case (Suc d)
  then have j: "j < length qs" and d: "d = length qs - Suc j" and le: "Suc j \<le> length qs"
    by simp_all
  from market_answers_nth(2) [OF assms(1) j]
  obtain t where t: "nextPageToken (qs ! j) = Some t" "t \<noteq> ''''" by blast
  have acc: "concat (map offerMappingEntries (take j qs)) @ offerMappingEntries (qs ! j)
             = concat (map offerMappingEntries (take (Suc j) qs))"
    using j by (simp add: take_Suc_conv_app_nth)
  have req: "t = market_request qs (Suc j)"
    using t by (simp add: market_request_def)
  have "market_offers_loop g j (market_request qs j)
          (concat (map offerMappingEntries (take j qs)))
        = market_offers_loop g (Suc j) t (concat (map offerMappingEntries (take (Suc j) qs)))"
    using market_answers_nth(1) [OF assms(1) j] t
    by (subst market_offers_loop.simps) (simp add: acc del: concat_append take_Suc)
  also have "\<dots> = market_offers_loop g (length qs) (market_request qs (length qs))
                      (concat (map offerMappingEntries qs))"
    using Suc.hyps(1) [OF d le] by (simp only: req)
  finally show ?case .
qed

lemma market_offers_loop_run:
  assumes "market_answers g qs"
  shows "market_offers_loop g 0 '''' []
         = market_offers_loop g (length qs) (market_request qs (length qs))
             (concat (map offerMappingEntries qs))"
  using market_offers_loop_prefix [OF assms, of 0] by (simp add: market_request_def)

lemma market_get_offer_ids_error:
  assumes "market_answers g qs" "g (length qs) (market_request qs (length qs)) = Inl e"
  shows "market_get_offer_ids g = Some (Inl e)"
proof -
  have "market_offers_loop g (length qs) (market_request qs (length qs))
          (concat (map offerMappingEntries qs)) = Some (Inl e)"
    using assms(2) by (subst market_offers_loop.simps) simp
  then show ?thesis
    by (simp add: market_get_offer_ids_def market_offers_loop_run [OF assms(1)])
qed

lemma market_get_offer_ids_done:
  assumes "market_answers g qs" "g (length qs) (market_request qs (length qs)) = Inr q"
    and "nextPageToken q = None \<or> nextPageToken q = Some ''''"
  shows "market_get_offer_ids g
         = Some (Inr (map shopSku (concat (map offerMappingEntries (qs @ [q])))))"
proof -
  have "market_offers_loop g (length qs) (market_request qs (length qs))
          (concat (map offerMappingEntries qs))
        = Some (Inr (concat (map offerMappingEntries (qs @ [q]))))"
    using assms(2,3) by (subst market_offers_loop.simps) auto
  then show ?thesis
    by (simp add: market_get_offer_ids_def market_offers_loop_run [OF assms(1)])
qed

text \<open>
  Claim C9. \<^verbatim>\<open>get_offer_ids\<close> accumulates the items page by page until the termination
  signal of its marketplace: for Ozon a page that brings the running count of items to the
  total the server reports, for Yandex Market a page without continuation token. When
  the pages before were received and gave no signal, a page with the signal makes the call
  return the offer identifiers of every item accumulated, that page's included; and a
  request that fails makes the call fail with that very error, no list being returned.
\<close>

theorem get_offer_ids_pagination:
  "(ozon_answers g ps \<longrightarrow>
      (g (length ps) (ozon_request ps (length ps)) = Inl e
         \<longrightarrow> seller_get_offer_ids g = Some (Inl e))
    \<and> (g (length ps) (ozon_request ps (length ps)) = Inr p
         \<and> page_total p = int (length (concat (map page_items (ps @ [p]))))
         \<longrightarrow> seller_get_offer_ids g
               = Some (Inr (map product_offer_id (concat (map page_items (ps @ [p])))))))
   \<and> (market_answers h qs \<longrightarrow>
      (h (length qs) (market_request qs (length qs)) = Inl e'
         \<longrightarrow> market_get_offer_ids h = Some (Inl e'))
    \<and> (h (length qs) (market_request qs (length qs)) = Inr q
         \<and> (nextPageToken q = None \<or> nextPageToken q = Some '''')
         \<longrightarrow> market_get_offer_ids h
               = Some (Inr (map shopSku (concat (map offerMappingEntries (qs @ [q])))))))"
  using seller_get_offer_ids_error [of g ps e] seller_get_offer_ids_done [of g ps p]
    market_get_offer_ids_error [of h qs e'] market_get_offer_ids_done [of h qs q]
  by blast

text \<open>
  Four runs: a catalogue served in two pages and a second request that fails with status
  500, on each marketplace.
\<close>

theorem get_offer_ids_pagination_witness:
  "ozon_answers ozon_two_pages
     [\<lparr>page_items = [\<lparr>product_offer_id = ''69791''\<rparr>], page_total = 2, page_last_id = ''a1''\<rparr>]
   \<and> seller_get_offer_ids ozon_two_pages = Some (Inr [''69791'', ''70000''])
   \<and> ozon_answers ozon_second_fails
     [\<lparr>page_items = [\<lparr>product_offer_id = ''69791''\<rparr>], page_total = 2, page_last_id = ''a1''\<rparr>]
   \<and> seller_get_offer_ids ozon_second_fails = Some (Inl (HTTPError 500))
   \<and> market_answers market_two_pages
     [\<lparr>offerMappingEntries = [\<lparr>shopSku = ''69791''\<rparr>], nextPageToken = Some ''t1''\<rparr>]
   \<and> market_get_offer_ids market_two_pages = Some (Inr [''69791'', ''70000''])
   \<and> market_answers market_second_fails
     [\<lparr>offerMappingEntries = [\<lparr>shopSku = ''69791''\<rparr>], nextPageToken = Some ''t1''\<rparr>]
   \<and> market_get_offer_ids market_second_fails = Some (Inl (HTTPError 500))"
proof -
  let ?p1 = "\<lparr>page_items = [\<lparr>product_offer_id = ''69791''\<rparr>], page_total = 2, page_last_id = ''a1''\<rparr>"
  let ?p2 = "\<lparr>page_items = [\<lparr>product_offer_id = ''70000''\<rparr>], page_total = 2, page_last_id = ''a2''\<rparr>"
  let ?q1 = "\<lparr>offerMappingEntries = [\<lparr>shopSku = ''69791''\<rparr>], nextPageToken = Some ''t1''\<rparr>"
  let ?q2 = "\<lparr>offerMappingEntries = [\<lparr>shopSku = ''70000''\<rparr>], nextPageToken = Some ''''\<rparr>"
  have a1: "ozon_answers ozon_two_pages [?p1]"
    by (simp add: ozon_answers_def ozon_request_def ozon_two_pages_def)
  have a2: "ozon_two_pages (length [?p1]) (ozon_request [?p1] (length [?p1])) = Inr ?p2"
    by (simp add: ozon_request_def ozon_two_pages_def)
  have a3: "page_total ?p2 = int (length (concat (map page_items ([?p1] @ [?p2]))))"
    by simp
  have b1: "ozon_answers ozon_second_fails [?p1]"
    by (simp add: ozon_answers_def ozon_request_def ozon_second_fails_def)
  have b2: "ozon_second_fails (length [?p1]) (ozon_request [?p1] (length [?p1]))
            = Inl (HTTPError 500)"
    by (simp add: ozon_request_def ozon_second_fails_def)
  have c1: "market_answers market_two_pages [?q1]"
    by (simp add: market_answers_def market_request_def market_two_pages_def)
  have c2: "market_two_pages (length [?q1]) (market_request [?q1] (length [?q1])) = Inr ?q2"
    by (simp add: market_request_def market_two_pages_def)
  have c3: "nextPageToken ?q2 = None \<or> nextPageToken ?q2 = Some ''''"
    by simp
  have d1: "market_answers market_second_fails [?q1]"
    by (simp add: market_answers_def market_request_def market_second_fails_def)
  have d2: "market_second_fails (length [?q1]) (market_request [?q1] (length [?q1]))
            = Inl (HTTPError 500)"
    by (simp add: market_request_def market_second_fails_def)
  have r1: "seller_get_offer_ids ozon_two_pages = Some (Inr [''69791'', ''70000''])"
    and r3: "market_get_offer_ids market_two_pages = Some (Inr [''69791'', ''70000''])"
    using get_offer_ids_pagination
            [of ozon_two_pages "[?p1]" "HTTPError 0" ?p2 market_two_pages "[?q1]" "HTTPError 0" ?q2]
      a1 a2 a3 c1 c2 c3
    by simp_all
  have r2: "seller_get_offer_ids ozon_second_fails = Some (Inl (HTTPError 500))"
    and r4: "market_get_offer_ids market_second_fails = Some (Inl (HTTPError 500))"
    using get_offer_ids_pagination
            [of ozon_second_fails "[?p1]" "HTTPError 500" ?p2 market_second_fails "[?q1]"
                "HTTPError 500" ?q2]
      b1 b2 d1 d2
    by simp_all
  from a1 b1 c1 d1 r1 r2 r3 r4 show ?thesis by blast
qed

section \<open>Properties of upload_prices and main\<close>

lemma send_batches_accept_all: "send_batches accept_all bs sent = (None, sent @ bs)"
  by (induction bs arbitrary: sent) (simp_all add: accept_all_def)

lemma divide_list_one_batch:
  assumes "xs \<noteq> []" "int (length xs) \<le> n"
  shows "divide_list xs n = Inr [xs]"
proof -
  have n: "0 < n" using assms by (cases xs) auto
  have "(length xs + nat n - 1) div nat n = 1"
  proof -
    have "nat n \<le> length xs + nat n - 1" using assms(1) by (cases xs) auto
    moreover have "length xs + nat n - 1 < 2 * nat n" using assms(2) n by linarith
    ultimately show ?thesis
      by (metis One_nat_def div_nat_eqI mult.commute mult_2 nat_mult_1_right one_add_one plus_1_eq_Suc)
  qed
  then show ?thesis
    using assms(2) by (simp add: divide_pos [OF n])
qed

lemma divide_list_empty: "0 < n \<Longrightarrow> divide_list [] n = Inr []"
  by (simp add: divide_pos)

text \<open>
  With a ceiling \<open>n > 0\<close> and a collaborator that accepts every batch, the requests made
  are the chunks in order, and their number is the length of the list divided by \<open>n\<close>,
  rounded up.
\<close>

lemma batches_sent:
  assumes "0 < n"
  shows "\<exists>bs. divide_list xs n = Inr bs \<and> send_batches accept_all bs [] = (None, bs)
            \<and> length bs = (length xs + nat n - 1) div nat n \<and> concat bs = xs"
proof -
  have "concat (map (\<lambda>k. take (nat n) (drop (k * nat n) xs))
                  [0..<(length xs + nat n - 1) div nat n]) = xs"
    using chunks_cover [of "nat n" "length xs"] assms by (simp add: concat_chunks_take)
  then show ?thesis
    by (simp add: divide_pos [OF assms] send_batches_accept_all)
qed

text \<open>
  The four upload functions with a collaborator that accepts every batch: the requests are
  the chunks of the update list, in order, at the ceiling the function has: 100 and 1000
  in \<^verbatim>\<open>seller.py\<close>, 2000 and 500 in \<^verbatim>\<open>market.py\<close>.
\<close>

lemma seller_upload_stocks_batches:
  assumes "seller_get_offer_ids g = Some (Inr ids)"
    and "fst (seller_create_stocks int_str rows ids) = Inr stocks"
  shows "\<exists>bs. seller_upload_stocks int_str g accept_all rows
                = Some (Inr (filter (\<lambda>s. stock_count s \<noteq> 0) stocks, stocks), bs)
            \<and> concat bs = stocks \<and> length bs = (length stocks + 99) div 100"
proof -
  obtain i where c: "seller_create_stocks int_str rows ids = (Inr stocks, i)"
    using assms(2) by (cases "seller_create_stocks int_str rows ids") simp
  from batches_sent [of 100 stocks] obtain bs where
    "divide_list stocks 100 = Inr bs" "send_batches accept_all bs [] = (None, bs)"
    "length bs = (length stocks + nat 100 - 1) div nat 100" "concat bs = stocks"
    by auto
  then show ?thesis
    by (simp add: seller_upload_stocks_def assms(1) c)
qed

lemma seller_upload_prices_batches:
  assumes "seller_get_offer_ids g = Some (Inr ids)"
    and "fst (seller_create_prices rows ids) = Inr prices"
  shows "\<exists>bs. seller_upload_prices g accept_all rows = Some (Inr prices, bs)
            \<and> concat bs = prices \<and> length bs = (length prices + 999) div 1000"
proof -
  obtain i where c: "seller_create_prices rows ids = (Inr prices, i)"
    using assms(2) by (cases "seller_create_prices rows ids") simp
  from batches_sent [of 1000 prices] obtain bs where
    "divide_list prices 1000 = Inr bs" "send_batches accept_all bs [] = (None, bs)"
    "length bs = (length prices + nat 1000 - 1) div nat 1000" "concat bs = prices"
    by auto
  then show ?thesis
    by (simp add: seller_upload_prices_def assms(1) c)
qed

lemma market_upload_stocks_batches:
  assumes "market_get_offer_ids g = Some (Inr ids)"
    and "fst (market_create_stocks int_str rows ids warehouse_id date) = Inr stocks"
  shows "\<exists>bs not_empty. market_upload_stocks int_str g accept_all rows warehouse_id date
                = Some (Inr (not_empty, stocks), bs)
            \<and> concat bs = stocks \<and> length bs = (length stocks + 1999) div 2000"
proof -
  obtain i where c: "market_create_stocks int_str rows ids warehouse_id date = (Inr stocks, i)"
    using assms(2) by (cases "market_create_stocks int_str rows ids warehouse_id date") simp
  from batches_sent [of 2000 stocks] obtain bs where
    "divide_list stocks 2000 = Inr bs" "send_batches accept_all bs [] = (None, bs)"
    "length bs = (length stocks + nat 2000 - 1) div nat 2000" "concat bs = stocks"
    by auto
  then show ?thesis
    by (simp add: market_upload_stocks_def assms(1) c)
qed

lemma market_upload_prices_batches:
  assumes "market_get_offer_ids g = Some (Inr ids)"
    and "fst (market_create_prices int_str rows ids) = Inr prices"
  shows "\<exists>bs. market_upload_prices int_str g accept_all rows = Some (Inr prices, bs)
            \<and> concat bs = prices \<and> length bs = (length prices + 499) div 500"
proof -
  obtain i where c: "market_create_prices int_str rows ids = (Inr prices, i)"
    using assms(2) by (cases "market_create_prices int_str rows ids") simp
  from batches_sent [of 500 prices] obtain bs where
    "divide_list prices 500 = Inr bs" "send_batches accept_all bs [] = (None, bs)"
    "length bs = (length prices + nat 500 - 1) div nat 500" "concat bs = prices"
    by auto
  then show ?thesis
    by (simp add: market_upload_prices_def assms(1) c)
qed

lemma collect_replicate: "collect (replicate k (Inr v)) = Inr (replicate k v)"
  by (induction k) simp_all

lemma seller_price_entry_69791: "seller_price_entry row_69791 = Inr price_69791"
  by (simp add: seller_price_entry_def price_conversion_row row_69791_simps(1) price_69791_def)

lemma seller_create_prices_replicate:
  "seller_create_prices (replicate k row_69791) [''69791'']
   = (Inr (replicate k price_69791), [''69791''])"
  by (simp add: seller_create_prices_def seller_prices_loop_collect row_69791_simps(1)
        seller_price_entry_69791 collect_replicate)

lemma seller_get_offer_ids_one_page:
  "seller_get_offer_ids ozon_one_page = Some (Inr [''69791'', ''70000''])"
  by (simp add: seller_get_offer_ids_def ozon_one_page_def seller_offers_loop.simps)

lemma seller_get_offer_ids_single_offer:
  "seller_get_offer_ids ozon_single_offer = Some (Inr [''69791''])"
  by (simp add: seller_get_offer_ids_def ozon_single_offer_def seller_offers_loop.simps)

text \<open>
  \<^verbatim>\<open>main\<close> of \<^verbatim>\<open>seller.py\<close> hands the list that \<^verbatim>\<open>create_stocks\<close> has consumed to
  \<^verbatim>\<open>create_prices\<close>: for a duplicate-free catalogue no feed row matches it any more, and no
  price request is ever made.
\<close>

lemma seller_main_sends_no_price:
  assumes "seller_get_offer_ids g = Some (Inr ids)" "distinct ids"
    and "seller_main int_str g feed update_stocks update_price = Some run"
  shows "price_requests run = []"
proof (cases feed)
  case (Inl e)
  with assms show ?thesis by (auto simp: seller_main_def)
next
  case (Inr rows)
  obtain r i where c: "seller_create_stocks int_str rows ids = (r, i)"
    by (cases "seller_create_stocks int_str rows ids")
  show ?thesis
  proof (cases r)
    case (Inl e)
    with assms Inr c show ?thesis by (auto simp: seller_main_def)
  next
    case st: (Inr st)
    have "fst (seller_create_stocks int_str rows ids) = Inr st" by (simp add: c st)
    from seller_create_stocks_snd [OF assms(2) this]
    have i: "i = filter (\<lambda>i. i \<notin> set (map (\<lambda>w. py_str (row_code w)) rows)) ids"
      by (simp add: c)
    have "\<forall>w \<in> set rows. py_str (row_code w) \<notin> set i" by (auto simp: i)
    then have p: "seller_create_prices rows i = (Inr [], i)"
      by (rule create_prices_sees_no_match)
    have e: "divide_list ([]::ozon_price list) 900 = Inr []" by (simp add: divide_list_empty)
    from assms(1,3) show ?thesis
      by (auto simp: seller_main_def Inr c st p e split: sum.splits prod.splits option.splits)
  qed
qed

text \<open>
  Claim C3, evaluated on the code. The claim says that the price build works on the offer
  ids as fetched. With the catalogue 69791, 70000 and the feed row of the examples, \<^verbatim>\<open>main\<close>
  of \<^verbatim>\<open>seller.py\<close> sends one stock batch and no price request at all, while
  \<^verbatim>\<open>create_prices\<close> on the list as fetched builds the price entry of 69791.
\<close>

theorem seller_main_price_build_after_stocks:
  "seller_get_offer_ids ozon_one_page = Some (Inr [''69791'', ''70000''])
   \<and> seller_main example_int ozon_one_page (Inr [row_69791]) accept_all accept_all
     = Some \<lparr>run_printed = Nothing,
             stock_requests = [[\<lparr>stock_offer_id = ''69791'', stock_count = 100\<rparr>,
                                \<lparr>stock_offer_id = ''70000'', stock_count = 0\<rparr>]],
             price_requests = []\<rparr>
   \<and> seller_create_prices [row_69791] [''69791'', ''70000'']
     = (Inr [price_69791], [''69791'', ''70000''])"
proof -
  have d: "divide_list [\<lparr>stock_offer_id = ''69791'', stock_count = 100\<rparr>,
                        \<lparr>stock_offer_id = ''70000'', stock_count = 0\<rparr>] 100
           = Inr [[\<lparr>stock_offer_id = ''69791'', stock_count = 100\<rparr>,
                   \<lparr>stock_offer_id = ''70000'', stock_count = 0\<rparr>]]"
    by (rule divide_list_one_batch) simp_all
  have e: "divide_list ([]::ozon_price list) 900 = Inr []" by (simp add: divide_list_empty)
  have p: "seller_create_prices [row_69791] [''70000''] = (Inr [], [''70000''])"
    by (simp add: seller_create_prices_def row_69791_simps(1))
  have q: "seller_create_prices [row_69791] [''69791'', ''70000'']
           = (Inr [price_69791], [''69791'', ''70000''])"
    by (simp add: seller_create_prices_def row_69791_simps(1) price_conversion_row
          price_69791_def)
  show ?thesis
    by (simp add: seller_main_def seller_get_offer_ids_one_page seller_create_stocks_69791
          d e p q accept_all_def)
qed

text \<open>
  Claim C7, evaluated on the code. The claim gives Ozon price batches the ceiling 900, as
  \<^verbatim>\<open>main\<close> of \<^verbatim>\<open>seller.py\<close> has it. \<^verbatim>\<open>upload_prices\<close> of \<^verbatim>\<open>seller.py\<close> divides at 1000: for
  901 price entries it makes a single request that carries all 901, where the ceiling 900
  gives two batches, of 900 and of 1.
\<close>

theorem seller_upload_prices_single_batch:
  "seller_upload_prices ozon_single_offer accept_all (replicate 901 row_69791)
     = Some (Inr (replicate 901 price_69791), [replicate 901 price_69791])
   \<and> divide_list (replicate 901 price_69791) 900
     = Inr [replicate 900 price_69791, [price_69791]]"
proof -
  have one: "divide_list (replicate 901 price_69791) 1000 = Inr [replicate 901 price_69791]"
    by (rule divide_list_one_batch) simp_all
  have up: "[0..<(2::nat)] = [0, 1]" by (simp add: upt_rec)
  have two: "divide_list (replicate 901 price_69791) 900
             = Inr [replicate 900 price_69791, [price_69791]]"
    by (simp add: divide_pos up)
  show ?thesis
    by (simp add: seller_upload_prices_def seller_get_offer_ids_single_offer
          seller_create_prices_replicate one two accept_all_def)
qed

end
